theory Spec2Isabelle
  imports Main
begin

section \<open>JavaScript strings, regular expressions and values\<close>

text \<open>
  A JavaScript string is modelled as a \<open>string\<close>: one \<open>char\<close> per code unit, so that
  \<open>length\<close> is the \<open>.length\<close> of the source.

  The source uses two regular expressions of the shape \<open>/^[class]{lo,hi}$/\<close>.
  \<open>matchClassRep cls lo hi s\<close> runs such an expression over the whole string \<open>s\<close>:
  every character must be in the class, at least \<open>lo\<close> and at most \<open>hi\<close> of them.
  (In JavaScript \<open>$\<close> without the \<open>m\<close> flag matches at the end of the input only.)
\<close>

fun matchClassRep :: "(char \<Rightarrow> bool) \<Rightarrow> nat \<Rightarrow> nat \<Rightarrow> string \<Rightarrow> bool" where
  "matchClassRep cls lo hi [] = (lo = 0)"
| "matchClassRep cls lo hi (c # cs) =
     (0 < hi \<and> cls c \<and> matchClassRep cls (lo - 1) (hi - 1) cs)"

text \<open>The class \<open>[0-9a-f]\<close>, and the same class under the \<open>i\<close> flag.\<close>

definition lowerHex :: "char \<Rightarrow> bool" where
  "lowerHex c = (c \<in> set ''0123456789abcdef'')"

definition hexIgnoreCase :: "char \<Rightarrow> bool" where
  "hexIgnoreCase c = (c \<in> set ''0123456789abcdefABCDEF'')"

text \<open>\<open>isValidGitCommitHash\<close> of upload-storybook.ts: \<open>/^[0-9a-f]{40}$/i.test(hash)\<close>.\<close>

definition isValidGitCommitHash :: "string \<Rightarrow> bool" where
  "isValidGitCommitHash hash = matchClassRep hexIgnoreCase 40 40 hash"

text \<open>\<open>checkToken\<close> of index.ts: \<open>/^[0-9a-f]{12,24}$/.test(token)\<close>.\<close>

definition checkToken :: "string \<Rightarrow> bool" where
  "checkToken token = matchClassRep lowerHex 12 24 token"

text \<open>\<open>s.includes(sub)\<close>.\<close>

fun startsWith :: "string \<Rightarrow> string \<Rightarrow> bool" where
  "startsWith s [] = True"
| "startsWith [] (p # ps) = False"
| "startsWith (c # cs) (p # ps) = (c = p \<and> startsWith cs ps)"

fun stringIncludes :: "string \<Rightarrow> string \<Rightarrow> bool" where
  "stringIncludes [] sub = (sub = [])"
| "stringIncludes (c # cs) sub = (startsWith (c # cs) sub \<or> stringIncludes cs sub)"

text \<open>\<open>s.replace(pat, rep)\<close> with a string pattern: the first occurrence only.\<close>

fun replaceFirst :: "string \<Rightarrow> string \<Rightarrow> string \<Rightarrow> string" where
  "replaceFirst [] pat rep = (if pat = [] then rep else [])"
| "replaceFirst (c # cs) pat rep =
     (if startsWith (c # cs) pat then rep @ drop (length pat) (c # cs)
      else c # replaceFirst cs pat rep)"

text \<open>\<open>s.replace(/\/+$/, "")\<close>: the trailing slashes are removed.\<close>

definition stripTrailingSlashes :: "string \<Rightarrow> string" where
  "stripTrailingSlashes s = rev (dropWhile (\<lambda>c. c = CHR ''/'') (rev s))"

text \<open>\<open>s.trim()\<close>, on the white space and line terminators below code unit 256.\<close>

definition isJsSpace :: "char \<Rightarrow> bool" where
  "isJsSpace c = (c \<in> {CHR 0x09, CHR 0x0A, CHR 0x0B, CHR 0x0C, CHR 0x0D, CHR 0x20, CHR 0xA0})"

definition trim :: "string \<Rightarrow> string" where
  "trim s = rev (dropWhile isJsSpace (rev (dropWhile isJsSpace s)))"

text \<open>The double quote, and decimal printing of the integers the source interpolates.\<close>

definition dq :: string where
  "dq = [CHR 0x22]"

function showNat :: "nat \<Rightarrow> string" where
  "showNat n =
     (if n < 10 then [''0123456789'' ! n]
      else showNat (n div 10) @ [''0123456789'' ! (n mod 10)])"
  by pat_completeness auto
termination
  by (relation "measure id") auto

declare showNat.simps [simp del]

definition showInt :: "int \<Rightarrow> string" where
  "showInt i = (if i < 0 then ''-'' @ showNat (nat (- i)) else showNat (nat i))"

text \<open>
  A value produced by \<open>JSON.parse\<close>. An object is an association list read with
  \<open>map_of\<close>; its keys are the distinct first components.
\<close>

datatype json =
    JNull
  | JBool bool
  | JNum int
  | JStr string
  | JArr "json list"
  | JObj "(string \<times> json) list"

text \<open>Truthiness (\<open>!x\<close>, \<open>x && y\<close>, \<open>x ? a : b\<close>).\<close>

fun truthy :: "json \<Rightarrow> bool" where
  "truthy JNull = False"
| "truthy (JBool b) = b"
| "truthy (JNum n) = (n \<noteq> 0)"
| "truthy (JStr s) = (s \<noteq> [])"
| "truthy (JArr xs) = True"
| "truthy (JObj kvs) = True"

text \<open>
  \<open>typeof x === "object"\<close> and \<open>typeof x === "string"\<close>, where \<open>None\<close> is \<open>undefined\<close>.
\<close>

fun typeofObject :: "json option \<Rightarrow> bool" where
  "typeofObject (Some JNull) = True"
| "typeofObject (Some (JArr xs)) = True"
| "typeofObject (Some (JObj kvs)) = True"
| "typeofObject v = False"

fun typeofString :: "json option \<Rightarrow> bool" where
  "typeofString (Some (JStr s)) = True"
| "typeofString v = False"

text \<open>
  \<open>x.name\<close> for the property names this program reads (\<open>storybookVersion\<close>, \<open>entries\<close>,
  \<open>success\<close>, \<open>error\<close>, \<open>testId\<close>, \<open>uploadId\<close>) on a value that is not \<open>null\<close>:
  an object gives its field, every other value gives \<open>undefined\<close>, or, for \<open>entries\<close> on
  an array, a function, which is neither an object nor a string for \<open>typeof\<close>.
\<close>

fun getProp :: "json \<Rightarrow> string \<Rightarrow> json option" where
  "getProp (JObj kvs) name = map_of kvs name"
| "getProp v name = None"

text \<open>\<open>Object.keys(x).length\<close> for a value with \<open>typeof x === "object"\<close> that is truthy.\<close>

fun objectKeysLength :: "json \<Rightarrow> nat" where
  "objectKeysLength (JObj kvs) = length (remdups (map fst kvs))"
| "objectKeysLength (JArr xs) = length xs"
| "objectKeysLength v = 0"

text \<open>String conversion in a template literal, \<open>None\<close> being \<open>undefined\<close>.\<close>

fun joinWith :: "string \<Rightarrow> string list \<Rightarrow> string" where
  "joinWith sep [] = []"
| "joinWith sep [x] = x"
| "joinWith sep (x # y # ys) = x @ sep @ joinWith sep (y # ys)"

fun jsToString :: "json \<Rightarrow> string" where
  "jsToString JNull = ''null''"
| "jsToString (JBool b) = (if b then ''true'' else ''false'')"
| "jsToString (JNum n) = showInt n"
| "jsToString (JStr s) = s"
| "jsToString (JArr xs) =
     joinWith '','' (map (\<lambda>x. if x = JNull then [] else jsToString x) xs)"
| "jsToString (JObj kvs) = ''[object Object]''"

definition templateString :: "json option \<Rightarrow> string" where
  "templateString v = (case v of None \<Rightarrow> ''undefined'' | Some x \<Rightarrow> jsToString x)"

section \<open>Errors, the file system and the effects of a run\<close>

text \<open>
  A thrown value: an \<open>Error\<close> object with its \<open>name\<close>, its \<open>message\<close> and the
  \<open>statusCode\<close> that uploadStorybook attaches to a rejected upload.
  \<open>errorToString\<close> is \<open>Error.prototype.toString\<close>, used by \<open>${error}\<close>.
\<close>

datatype jsError = JsError (errName: string) (errMessage: string) (statusCode: "int option")

definition newError :: "string \<Rightarrow> jsError" where
  "newError msg = JsError ''Error'' msg None"

definition errorToString :: "jsError \<Rightarrow> string" where
  "errorToString e =
     (if errName e = [] then errMessage e
      else if errMessage e = [] then errName e
      else errName e @ '': '' @ errMessage e)"

text \<open>The file system: a path holds a file with its contents, a directory or nothing.\<close>

datatype node = File string | Directory

type_synonym fileSystem = "string \<Rightarrow> node option"

datatype fsOp = Access string | ReadFile string | Unlink string

record request =
  requestUrl :: string
  requestMethod :: string
  requestHeaders :: "(string \<times> string) list"
  requestBody :: string

text \<open>
  What the program reads of a \<open>Response\<close>: \<open>ok\<close>, \<open>status\<close>, \<open>statusText\<close>,
  \<open>headers.get("content-type")\<close> (\<open>None\<close> is \<open>null\<close>) and the outcome of \<open>await response.json()\<close>.
\<close>

record response =
  responseOk :: bool
  responseStatus :: int
  responseStatusText :: string
  responseContentType :: "string option"
  responseJson :: "jsError + json"

datatype gitQuery = Log | Status | GetRemotes | Revparse "string list" | Raw "string list"

text \<open>
  The trace of a run: every call that reaches the file system, the compression library,
  the network or the git repository (with the directory of the \<open>simpleGit\<close> instance), and
  every line written with \<open>console.log\<close> (\<open>Info\<close>, by \<open>info\<close> of log.ts) or with
  \<open>console.error\<close>, in the order of the calls.
\<close>

datatype event =
    Fs fsOp
  | ExistsSync string
  | Tar string string
  | Fetch request
  | Git string gitQuery
  | Info string
  | ConsoleError string

text \<open>
  The environment of a run: the Node.js built-ins and the external collaborators, taken
  as parameters. \<open>fsFault\<close> is an input/output failure of a file-system call (\<open>EPERM\<close>,
  \<open>EACCES\<close>, \<open>EIO\<close>, ...), \<open>mathRandom16 i\<close> the \<open>i\<close>-th value of
  \<open>Math.floor(Math.random() * 16)\<close>, \<open>tarResult\<close> what zip-a-folder's \<open>tar\<close> returns (an
  error, or it has written these bytes), \<open>formatBytes\<close> the floating-point rendering of
  a size in upload-storybook.ts, the \<open>git...\<close> fields the answers of simple-git
  (\<open>log().latest?.hash\<close>, \<open>status().current\<close>, the names of \<open>getRemotes(true)\<close>,
  \<open>revparse\<close>, \<open>raw\<close>), each of which may reject, and \<open>stderrSupportsColor\<close> whether
  \<open>supportsColor.stderr\<close>, which supportsColor.ts computes from the process environment
  and the terminal, is truthy.

  simple-git rejects a query when git exits with a status other than 0 and has written
  to its standard error. \<open>git merge-base\<close> on two branches without a common ancestor
  writes nothing and exits with status 1: \<open>raw\<close> then resolves with the empty string.
  On a name that is no branch it writes \<open>fatal: Not a valid object name\<close> and \<open>raw\<close>
  rejects.
\<close>

record env =
  pathResolve :: "string \<Rightarrow> string \<Rightarrow> string"
  pathJoin :: "string \<Rightarrow> string \<Rightarrow> string"
  pathDirname :: "string \<Rightarrow> string"
  osTmpdir :: string
  mathRandom16 :: "nat \<Rightarrow> nat"
  envVIZDIFF_API_URL :: "string option"
  envVIZDIFF_PROJECT_TOKEN :: "string option"
  envVIZDIFF_TOKEN :: "string option"
  fsFault :: "fsOp \<Rightarrow> jsError option"
  jsonParse :: "string \<Rightarrow> jsError + json"
  tarResult :: "string \<Rightarrow> string \<Rightarrow> jsError + string"
  fetchResult :: "request \<Rightarrow> jsError + response"
  formatBytes :: "nat \<Rightarrow> string"
  gitLogLatest :: "string \<Rightarrow> jsError + string option"
  gitStatusCurrent :: "string \<Rightarrow> jsError + string option"
  gitRemotes :: "string \<Rightarrow> jsError + string list"
  gitRevparse :: "string \<Rightarrow> string list \<Rightarrow> jsError + string"
  gitRaw :: "string \<Rightarrow> string list \<Rightarrow> jsError + string"
  parseInt :: "string \<Rightarrow> int option"
  stderrSupportsColor :: bool

text \<open>
  An asynchronous computation of the source: from the file system before, the value it
  resolves with or the error it rejects with, the file system after, and the events of
  the calls it made.
\<close>

type_synonym 'a io = "fileSystem \<Rightarrow> (jsError + 'a) \<times> fileSystem \<times> event list"

definition ioReturn :: "'a \<Rightarrow> 'a io" where
  "ioReturn x = (\<lambda>fs. (Inr x, fs, []))"

definition ioThrow :: "jsError \<Rightarrow> 'a io" where
  "ioThrow e = (\<lambda>fs. (Inl e, fs, []))"

definition ioBind :: "'a io \<Rightarrow> ('a \<Rightarrow> 'b io) \<Rightarrow> 'b io" where
  "ioBind m f = (\<lambda>fs.
     case m fs of
       (Inl e, fs1, es1) \<Rightarrow> (Inl e, fs1, es1)
     | (Inr x, fs1, es1) \<Rightarrow> (case f x fs1 of (r, fs2, es2) \<Rightarrow> (r, fs2, es1 @ es2)))"

text \<open>\<open>try { m } catch (e) { h e }\<close>.\<close>

definition tryCatch :: "'a io \<Rightarrow> (jsError \<Rightarrow> 'a io) \<Rightarrow> 'a io" where
  "tryCatch m h = (\<lambda>fs.
     case m fs of
       (Inl e, fs1, es1) \<Rightarrow> (case h e fs1 of (r, fs2, es2) \<Rightarrow> (r, fs2, es1 @ es2))
     | (Inr x, fs1, es1) \<Rightarrow> (Inr x, fs1, es1))"

text \<open>
  \<open>try { m } finally { fin }\<close>: \<open>fin\<close> runs after \<open>m\<close> whatever \<open>m\<close> did; an error thrown by
  \<open>fin\<close> replaces the outcome of \<open>m\<close>, otherwise the outcome of \<open>m\<close> stands.
\<close>

definition tryFinally :: "'a io \<Rightarrow> unit io \<Rightarrow> 'a io" where
  "tryFinally m fin = (\<lambda>fs.
     case m fs of (r, fs1, es1) \<Rightarrow>
       (case fin fs1 of
          (Inl e, fs2, es2) \<Rightarrow> (Inl e, fs2, es1 @ es2)
        | (Inr u, fs2, es2) \<Rightarrow> (r, fs2, es1 @ es2)))"

text \<open>The calls of \<open>fs/promises\<close>, zip-a-folder and undici, and \<open>info\<close> of log.ts.\<close>

definition sq :: string where
  "sq = [CHR 0x27]"

definition enoent :: "string \<Rightarrow> string \<Rightarrow> jsError" where
  "enoent syscall p =
     JsError ''Error'' (''ENOENT: no such file or directory, '' @ syscall @ '' '' @ sq @ p @ sq) None"

definition eisdir :: "string \<Rightarrow> jsError" where
  "eisdir syscall =
     JsError ''Error'' (''EISDIR: illegal operation on a directory, '' @ syscall) None"

definition fsAccess :: "env \<Rightarrow> string \<Rightarrow> unit io" where
  "fsAccess env p = (\<lambda>fs.
     case fsFault env (Access p) of
       Some e \<Rightarrow> (Inl e, fs, [Fs (Access p)])
     | None \<Rightarrow>
         (case fs p of
            None \<Rightarrow> (Inl (enoent ''access'' p), fs, [Fs (Access p)])
          | Some n \<Rightarrow> (Inr (), fs, [Fs (Access p)])))"

definition fsReadFile :: "env \<Rightarrow> string \<Rightarrow> string io" where
  "fsReadFile env p = (\<lambda>fs.
     case fsFault env (ReadFile p) of
       Some e \<Rightarrow> (Inl e, fs, [Fs (ReadFile p)])
     | None \<Rightarrow>
         (case fs p of
            None \<Rightarrow> (Inl (enoent ''open'' p), fs, [Fs (ReadFile p)])
          | Some Directory \<Rightarrow> (Inl (eisdir ''read''), fs, [Fs (ReadFile p)])
          | Some (File contents) \<Rightarrow> (Inr contents, fs, [Fs (ReadFile p)])))"

text \<open>A failed \<open>unlink\<close> leaves the file system as it was.\<close>

definition fsUnlink :: "env \<Rightarrow> string \<Rightarrow> unit io" where
  "fsUnlink env p = (\<lambda>fs.
     case fsFault env (Unlink p) of
       Some e \<Rightarrow> (Inl e, fs, [Fs (Unlink p)])
     | None \<Rightarrow>
         (case fs p of
            None \<Rightarrow> (Inl (enoent ''unlink'' p), fs, [Fs (Unlink p)])
          | Some Directory \<Rightarrow> (Inl (eisdir ''unlink''), fs, [Fs (Unlink p)])
          | Some (File contents) \<Rightarrow> (Inr (), fs(p := None), [Fs (Unlink p)])))"

text \<open>
  \<open>tar(source, target, options)\<close> resolves with an error or with \<open>undefined\<close> (\<open>None\<close>),
  in which case the archive is at \<open>target\<close>. The options are the constant
  \<open>{ compression: COMPRESSION_LEVEL.medium }\<close> and are not recorded in the event.
\<close>

definition tar :: "env \<Rightarrow> string \<Rightarrow> string \<Rightarrow> jsError option io" where
  "tar env source target = (\<lambda>fs.
     case tarResult env source target of
       Inl e \<Rightarrow> (Inr (Some e), fs, [Tar source target])
     | Inr bytes \<Rightarrow> (Inr None, fs(target \<mapsto> File bytes), [Tar source target]))"

definition fetch :: "env \<Rightarrow> request \<Rightarrow> response io" where
  "fetch env req = (\<lambda>fs. (fetchResult env req, fs, [Fetch req]))"

definition info :: "string \<Rightarrow> unit io" where
  "info msg = (\<lambda>fs. (Inr (), fs, [Info msg]))"

definition ioResult :: "(jsError + 'a) \<Rightarrow> 'a io" where
  "ioResult r = (\<lambda>fs. (r, fs, []))"

section \<open>upload-storybook.ts\<close>

record uploadStorybookOpts =
  storybookDir :: string
  commitSha :: string
  branch :: string
  projectToken :: string
  baseCommitSha :: "string option"
  baseBranch :: "string option"
  prNumber :: "int option"

text \<open>Truthiness of an optional string and of an optional value (\<open>None\<close> is \<open>undefined\<close>).\<close>

definition truthyString :: "string option \<Rightarrow> bool" where
  "truthyString v = (case v of None \<Rightarrow> False | Some s \<Rightarrow> s \<noteq> [])"

definition truthyOpt :: "json option \<Rightarrow> bool" where
  "truthyOpt v = (case v of None \<Rightarrow> False | Some x \<Rightarrow> truthy x)"

text \<open>\<open>"name" in x\<close> for a value with \<open>typeof x === "object"\<close> that is truthy.\<close>

fun propIn :: "string \<Rightarrow> json \<Rightarrow> bool" where
  "propIn name (JObj kvs) = (map_of kvs name \<noteq> None)"
| "propIn name v = False"

text \<open>\<open>randHexString(length = 8)\<close>.\<close>

definition randHexString :: "env \<Rightarrow> nat \<Rightarrow> string" where
  "randHexString env len =
     map (\<lambda>i. ''0123456789abcdef'' ! (mathRandom16 env i mod 16)) [0..<len]"

text \<open>
  Lines 70-71: \<open>index?.entries && typeof index.entries === "object" ?
  Object.keys(index.entries).length : 0\<close>.
\<close>

definition storyCountOf :: "json \<Rightarrow> nat" where
  "storyCountOf index =
     (case getProp index ''entries'' of
        None \<Rightarrow> 0
      | Some entries \<Rightarrow>
          if truthy entries \<and> typeofObject (Some entries) then objectKeysLength entries else 0)"

text \<open>
  Lines 102-109, the headers of the request: a spread of a falsy value adds nothing, a
  spread of an object adds its field.
\<close>

definition uploadHeaders :: "uploadStorybookOpts \<Rightarrow> (string \<times> string) list" where
  "uploadHeaders opts =
     [(''Content-Type'', ''application/gzip''),
      (''X-Vizdiff-Commit-Sha'', commitSha opts),
      (''X-Vizdiff-Branch'', branch opts)]
     @ (case baseCommitSha opts of
          None \<Rightarrow> []
        | Some s \<Rightarrow> if s \<noteq> [] then [(''X-Vizdiff-Base-Commit-Sha'', s)] else [])
     @ (case baseBranch opts of
          None \<Rightarrow> []
        | Some s \<Rightarrow> if s \<noteq> [] then [(''X-Vizdiff-Base-Branch'', s)] else [])
     @ (case prNumber opts of
          None \<Rightarrow> []
        | Some n \<Rightarrow> if n \<noteq> 0 then [(''X-Vizdiff-PR-Number'', showInt n)] else [])"

text \<open>Lines 113-130: the message of the error for a response that is not \<open>ok\<close>.\<close>

definition uploadErrorString :: "response \<Rightarrow> string" where
  "uploadErrorString resp =
     (let errorString = ''Failed to upload storybook build folder to vizdiff CDN: ''
            @ responseStatusText resp @ '' ('' @ showInt (responseStatus resp) @ '')''
      in case responseContentType resp of
           None \<Rightarrow> errorString
         | Some ct \<Rightarrow>
             if stringIncludes ct ''application/json'' then
               (case responseJson resp of
                  Inl e \<Rightarrow> errorString
                | Inr errorJson \<Rightarrow>
                    if truthy errorJson \<and> typeofObject (Some errorJson)
                       \<and> propIn ''error'' errorJson
                       \<and> typeofString (getProp errorJson ''error'')
                    then (case getProp errorJson ''error'' of
                            Some (JStr s) \<Rightarrow> s
                          | _ \<Rightarrow> errorString)
                    else errorString)
             else errorString)"

text \<open>Lines 135-141: the body of a response that is \<open>ok\<close>.\<close>

definition uploadInterpret :: "response \<Rightarrow> unit io" where
  "uploadInterpret resp =
     ioBind (ioResult (responseJson resp)) (\<lambda>res.
       if res = JNull then
         ioThrow (JsError ''TypeError''
           (''Cannot read properties of null (reading '' @ sq @ ''success'' @ sq @ '')'') None)
       else if \<not> truthyOpt (getProp res ''success'') then
         ioThrow (newError (''Failed to upload storybook build folder to vizdiff CDN: ''
           @ (case getProp res ''error'' of
                None \<Rightarrow> ''Unknown error''
              | Some JNull \<Rightarrow> ''Unknown error''
              | Some v \<Rightarrow> jsToString v)))
       else
         info (''Uploaded storybook build folder, testId='' @ templateString (getProp res ''testId'')
           @ '', uploadId='' @ templateString (getProp res ''uploadId'')))"

text \<open>Lines 86-141: the block guarded by \<open>try\<close>.\<close>

definition uploadSubmit :: "env \<Rightarrow> uploadStorybookOpts \<Rightarrow> string \<Rightarrow> unit io" where
  "uploadSubmit env opts tarballFilename =
     ioBind (fsReadFile env tarballFilename) (\<lambda>body.
       let baseUrl = stripTrailingSlashes
             (case envVIZDIFF_API_URL env of None \<Rightarrow> ''https://vizdiff.io/api'' | Some u \<Rightarrow> u);
           url = baseUrl @ ''/upload/storybook?token='' @ projectToken opts;
           baseCommitStr =
             (if truthyString (baseCommitSha opts) \<or> truthyString (baseBranch opts)
              then ''base commit '' @ (case baseCommitSha opts of None \<Rightarrow> [] | Some s \<Rightarrow> s)
                   @ '' on branch '' @ dq @ (case baseBranch opts of None \<Rightarrow> [] | Some s \<Rightarrow> s) @ dq
              else ''no base commit'');
           pullRequestStr =
             (case prNumber opts of
                None \<Rightarrow> []
              | Some n \<Rightarrow> if n \<noteq> 0 then '' pull request #'' @ showInt n else [])
       in
       ioBind (info (''Uploading '' @ formatBytes env (length body) @ '' for commit '' @ commitSha opts
                 @ '' on branch '' @ dq @ branch opts @ dq @ '' ('' @ baseCommitStr @ '')''
                 @ pullRequestStr @ '' to ''
                 @ (if stringIncludes baseUrl ''//vizdiff.io'' then ''vizdiff.io'' else baseUrl))) (\<lambda>u1.
       ioBind (fsReadFile env tarballFilename) (\<lambda>body2.
       ioBind (fetch env \<lparr>requestUrl = url, requestMethod = ''POST'',
                 requestHeaders = uploadHeaders opts, requestBody = body2\<rparr>) (\<lambda>resp.
         if \<not> responseOk resp then
           ioThrow (JsError ''Error'' (uploadErrorString resp) (Some (responseStatus resp)))
         else uploadInterpret resp))))"

text \<open>Lines 143-145: the \<open>finally\<close> block.\<close>

definition uploadCleanup :: "env \<Rightarrow> string \<Rightarrow> unit io" where
  "uploadCleanup env tarballFilename =
     ioBind (fsUnlink env tarballFilename) (\<lambda>u.
       info (''Deleted storybook tarball: '' @ tarballFilename))"

text \<open>Lines 77-146: packaging, then submission under \<open>try\<close> ... \<open>finally\<close>.\<close>

definition uploadPackageAndSubmit :: "env \<Rightarrow> uploadStorybookOpts \<Rightarrow> unit io" where
  "uploadPackageAndSubmit env opts =
     (let tarballFilename = pathJoin env (osTmpdir env) (randHexString env 8 @ ''.tar.gz'') in
      ioBind (tar env (storybookDir opts) tarballFilename) (\<lambda>error.
        case error of
          Some e \<Rightarrow>
            ioThrow (newError (''Failed to tar+gzip storybook build folder: '' @ errorToString e))
        | None \<Rightarrow>
            ioBind (info (''Created storybook tarball: '' @ tarballFilename)) (\<lambda>u.
              tryFinally (uploadSubmit env opts tarballFilename)
                         (uploadCleanup env tarballFilename))))"

text \<open>\<open>JSON.parse(await fs.readFile(path, "utf8"))\<close>.\<close>

definition readJson :: "env \<Rightarrow> string \<Rightarrow> json io" where
  "readJson env p = ioBind (fsReadFile env p) (\<lambda>json. ioResult (jsonParse env json))"

definition uploadStorybook :: "env \<Rightarrow> uploadStorybookOpts \<Rightarrow> unit io" where
  "uploadStorybook env opts =
     (if \<not> isValidGitCommitHash (commitSha opts) then
        ioThrow (newError (''Invalid commit SHA: '' @ dq @ commitSha opts @ dq))
      else if branch opts = [] \<or> length (branch opts) > 255 then
        ioThrow (newError (''Invalid branch name: '' @ dq @ branch opts @ dq))
      else
        let projectJsonPath = pathResolve env (storybookDir opts) ''project.json'' in
        ioBind (tryCatch (fsAccess env projectJsonPath) (\<lambda>err.
                  ioThrow (newError (''Storybook build manifest does not exist: ''
                    @ projectJsonPath)))) (\<lambda>u0.
        ioBind (tryCatch (readJson env projectJsonPath) (\<lambda>error.
                  ioThrow (newError (''Failed to parse project.json file: ''
                    @ errorToString error)))) (\<lambda>project.
          if \<not> truthy project \<or> \<not> typeofString (getProp project ''storybookVersion'') then
            ioThrow (newError (''Invalid project.json file: '' @ projectJsonPath))
          else
            let indexJsonPath = pathResolve env (storybookDir opts) ''index.json'' in
            ioBind (tryCatch (readJson env indexJsonPath) (\<lambda>error.
                      ioThrow (newError (''Failed to parse index.json file: ''
                        @ errorToString error)))) (\<lambda>index.
              let storyCount = storyCountOf index in
              if storyCount = 0 then
                ioThrow (newError (''No stories found in index.json file: '' @ indexJsonPath))
              else
                ioBind (info (''Found '' @ showNat storyCount @ '' ''
                          @ (if storyCount = 1 then ''story'' else ''stories''))) (\<lambda>u1.
                  uploadPackageAndSubmit env opts)))))"

section \<open>bin/vizdiff.ts\<close>

record commandArgs =
  optToken :: "string option"
  optCommit :: "string option"
  optBranch :: "string option"
  optBaseBranch :: "string option"
  optBaseCommit :: "string option"
  optPr :: "string option"

text \<open>
  How a computation of the command-line layer fails: with a thrown error, or with
  \<open>process.exit(code)\<close>, which ends the run and which no \<open>catch\<close> sees.
\<close>

datatype failure = Thrown jsError | Exited int

text \<open>
  A computation of the command-line layer. \<open>None\<close> is a run that does not return:
  \<open>findGitRoot\<close> walks up with \<open>path.dirname\<close>, which is a parameter here.
\<close>

type_synonym 'a cli = "fileSystem \<Rightarrow> ((failure + 'a) \<times> fileSystem \<times> event list) option"

definition cliReturn :: "'a \<Rightarrow> 'a cli" where
  "cliReturn x = (\<lambda>fs. Some (Inr x, fs, []))"

definition cliThrow :: "jsError \<Rightarrow> 'a cli" where
  "cliThrow e = (\<lambda>fs. Some (Inl (Thrown e), fs, []))"

text \<open>
  \<open>fatal\<close> of log.ts: the message goes to \<open>console.error\<close> behind the prefix
  \<open>[ERROR]\<close>, coloured when \<open>supportsColor.stderr\<close> is truthy, and the process exits
  with code 1.
\<close>

definition errorPrefix :: "env \<Rightarrow> string" where
  "errorPrefix env =
     (if stderrSupportsColor env
      then ''['' @ [CHR 0x1B] @ ''[31mERROR'' @ [CHR 0x1B] @ ''[39m] ''
      else ''[ERROR] '')"

definition fatal :: "env \<Rightarrow> string \<Rightarrow> 'a cli" where
  "fatal env msg = (\<lambda>fs. Some (Inl (Exited 1), fs, [ConsoleError (errorPrefix env @ msg)]))"

definition cliBind :: "'a cli \<Rightarrow> ('a \<Rightarrow> 'b cli) \<Rightarrow> 'b cli" where
  "cliBind m f = (\<lambda>fs.
     case m fs of
       None \<Rightarrow> None
     | Some (Inl e, fs1, es1) \<Rightarrow> Some (Inl e, fs1, es1)
     | Some (Inr x, fs1, es1) \<Rightarrow>
         (case f x fs1 of
            None \<Rightarrow> None
          | Some (r, fs2, es2) \<Rightarrow> Some (r, fs2, es1 @ es2)))"

text \<open>\<open>try { m } catch (err) { h err }\<close>: only a thrown error is caught.\<close>

definition cliTryCatch :: "'a cli \<Rightarrow> (jsError \<Rightarrow> 'a cli) \<Rightarrow> 'a cli" where
  "cliTryCatch m h = (\<lambda>fs.
     case m fs of
       None \<Rightarrow> None
     | Some (Inl (Thrown e), fs1, es1) \<Rightarrow>
         (case h e fs1 of
            None \<Rightarrow> None
          | Some (r, fs2, es2) \<Rightarrow> Some (r, fs2, es1 @ es2))
     | Some (Inl (Exited code), fs1, es1) \<Rightarrow> Some (Inl (Exited code), fs1, es1)
     | Some (Inr x, fs1, es1) \<Rightarrow> Some (Inr x, fs1, es1))"

definition cliLift :: "'a io \<Rightarrow> 'a cli" where
  "cliLift m = (\<lambda>fs.
     case m fs of
       (Inl e, fs1, es1) \<Rightarrow> Some (Inl (Thrown e), fs1, es1)
     | (Inr x, fs1, es1) \<Rightarrow> Some (Inr x, fs1, es1))"

text \<open>A query of the \<open>simpleGit(gitDir)\<close> instance, with the answer of the environment.\<close>

definition gitCall :: "string \<Rightarrow> gitQuery \<Rightarrow> (jsError + 'a) \<Rightarrow> 'a cli" where
  "gitCall gitDir q answer = cliLift (\<lambda>fs. (answer, fs, [Git gitDir q]))"

text \<open>
  \<open>findGitRoot\<close>: the first directory, from \<open>dir\<close> upwards, that contains \<open>.git\<close>; each
  \<open>fs.existsSync\<close> is an event.
\<close>

partial_function (option) findGitRoot ::
  "env \<Rightarrow> fileSystem \<Rightarrow> string \<Rightarrow> (string option \<times> event list) option" where
  "findGitRoot env fs dir =
     (if fs (pathJoin env dir ''.git'') \<noteq> None then
        Some (Some dir, [ExistsSync (pathJoin env dir ''.git'')])
      else if pathDirname env dir = dir then
        Some (None, [ExistsSync (pathJoin env dir ''.git'')])
      else
        Option.bind (findGitRoot env fs (pathDirname env dir))
          (\<lambda>r. Some (fst r, ExistsSync (pathJoin env dir ''.git'') # snd r)))"

declare findGitRoot.simps [code]

definition cliFindGitRoot :: "env \<Rightarrow> string \<Rightarrow> string option cli" where
  "cliFindGitRoot env dir = (\<lambda>fs.
     case findGitRoot env fs dir of
       None \<Rightarrow> None
     | Some (r, es) \<Rightarrow> Some (Inr r, fs, es))"

text \<open>
  Line 89: \<open>options.token ?? process.env.VIZDIFF_PROJECT_TOKEN ?? process.env.VIZDIFF_TOKEN\<close>.
\<close>

definition suppliedToken :: "env \<Rightarrow> commandArgs \<Rightarrow> string option" where
  "suppliedToken env options =
     (case optToken options of
        Some t \<Rightarrow> Some t
      | None \<Rightarrow>
          (case envVIZDIFF_PROJECT_TOKEN env of
             Some t \<Rightarrow> Some t
           | None \<Rightarrow> envVIZDIFF_TOKEN env))"

definition getToken :: "env \<Rightarrow> commandArgs \<Rightarrow> string cli" where
  "getToken env options =
     (case suppliedToken env options of
        None \<Rightarrow> fatal env (''Missing project token. Please set the VIZDIFF_PROJECT_TOKEN ''
          @ ''environment variable or use the --token option.'')
      | Some t \<Rightarrow>
          if t = [] then
            fatal env (''Missing project token. Please set the VIZDIFF_PROJECT_TOKEN ''
              @ ''environment variable or use the --token option.'')
          else if \<not> checkToken t then
            fatal env ''Invalid project token. Please check that the token is correct.''
          else cliReturn t)"

definition getCommitSha :: "env \<Rightarrow> string \<Rightarrow> commandArgs \<Rightarrow> string cli" where
  "getCommitSha env dir options =
     (if truthyString (optCommit options) then cliReturn (the (optCommit options))
      else
        cliBind (cliFindGitRoot env dir) (\<lambda>gitDir.
          if \<not> truthyString gitDir then
            cliThrow (newError ''Could not find a git repository for the storybook directory.'')
          else
            cliBind (gitCall (the gitDir) Log (gitLogLatest env (the gitDir))) (\<lambda>latest.
              case latest of
                None \<Rightarrow> cliThrow (newError ''Could not find the latest commit in the git log'')
              | Some hash \<Rightarrow> cliReturn hash)))"

definition getBranch :: "env \<Rightarrow> string \<Rightarrow> commandArgs \<Rightarrow> string cli" where
  "getBranch env dir options =
     (if truthyString (optBranch options) then cliReturn (the (optBranch options))
      else
        cliBind (cliFindGitRoot env dir) (\<lambda>gitDir.
          if \<not> truthyString gitDir then
            cliThrow (newError ''Could not find a git repository for the storybook directory.'')
          else
            cliBind (gitCall (the gitDir) Status (gitStatusCurrent env (the gitDir))) (\<lambda>current.
              if \<not> truthyString current then
                cliThrow (newError ''Could not find the current branch in the git status'')
              else cliReturn (the current))))"

text \<open>Lines 170-171: the base branch that is used.\<close>

definition actualBaseBranchOf :: "string option \<Rightarrow> string \<Rightarrow> string" where
  "actualBaseBranchOf baseBranchArg defaultBranch =
     (case baseBranchArg of
        None \<Rightarrow> replaceFirst defaultBranch ''origin/'' []
      | Some b \<Rightarrow> if b \<noteq> [] then b else replaceFirst defaultBranch ''origin/'' [])"

definition getBaseCommitShaAndBranch ::
  "env \<Rightarrow> string \<Rightarrow> string \<Rightarrow> string \<Rightarrow> string option \<Rightarrow> (string option \<times> string option) cli" where
  "getBaseCommitShaAndBranch env dir commit currentBranch baseBranchArg =
     cliBind (cliFindGitRoot env dir) (\<lambda>gitDir.
       if \<not> truthyString gitDir then cliReturn (None, None)
       else
         cliBind (gitCall (the gitDir) Log (gitLogLatest env (the gitDir))) (\<lambda>latest.
           if latest = None then cliReturn (None, None)
           else
             cliBind (gitCall (the gitDir) GetRemotes (gitRemotes env (the gitDir))) (\<lambda>remotes.
               case find (\<lambda>r. r = ''origin'') remotes of
                 None \<Rightarrow> cliReturn (None, None)
               | Some defaultRemote \<Rightarrow>
                   cliBind (gitCall (the gitDir) (Revparse [''--abbrev-ref'', defaultRemote @ ''/HEAD''])
                              (gitRevparse env (the gitDir) [''--abbrev-ref'', defaultRemote @ ''/HEAD'']))
                     (\<lambda>defaultBranch.
                       let actualBaseBranch = actualBaseBranchOf baseBranchArg defaultBranch in
                       if currentBranch = actualBaseBranch then
                         cliBind (gitCall (the gitDir) (Revparse [commit @ ''~1''])
                                    (gitRevparse env (the gitDir) [commit @ ''~1'']))
                           (\<lambda>baseCommit. cliReturn (Some baseCommit, Some actualBaseBranch))
                       else
                         cliTryCatch
                           (cliBind (gitCall (the gitDir) (Raw [''merge-base'', currentBranch, actualBaseBranch])
                                       (gitRaw env (the gitDir) [''merge-base'', currentBranch, actualBaseBranch]))
                              (\<lambda>mergeBase. cliReturn (Some (trim mergeBase), Some actualBaseBranch)))
                           (\<lambda>err. cliThrow (newError (''Failed to find merge base between '' @ dq
                              @ currentBranch @ dq @ '' and '' @ dq @ actualBaseBranch @ dq @ '': ''
                              @ errorToString err)))))))"

definition getPrNumber :: "env \<Rightarrow> commandArgs \<Rightarrow> int option" where
  "getPrNumber env options =
     (let n = (if truthyString (optPr options) then parseInt env (the (optPr options)) else None)
      in case n of None \<Rightarrow> None | Some k \<Rightarrow> if k < 1 then None else Some k)"

text \<open>Lines 54-57: the base commit and the base branch of the upload.\<close>

definition resolveBase ::
  "env \<Rightarrow> string \<Rightarrow> commandArgs \<Rightarrow> string \<Rightarrow> string \<Rightarrow> (string option \<times> string option) cli" where
  "resolveBase env dir options commit currentBranch =
     (if truthyString (optBaseCommit options) \<and> truthyString (optBaseBranch options) then
        cliReturn (optBaseCommit options, optBaseBranch options)
      else getBaseCommitShaAndBranch env dir commit currentBranch (optBaseBranch options))"

text \<open>Lines 70-84: what the \<open>catch\<close> of \<open>vizdiff\<close> reports.\<close>

definition reportUploadError :: "env \<Rightarrow> jsError \<Rightarrow> 'a cli" where
  "reportUploadError env err =
     (if statusCode err = Some 401 then
        fatal env ''Invalid project token. Please check that the token is correct.''
      else if statusCode err = Some 402 then fatal env (errMessage err)
      else if errMessage err = ''fetch failed'' then fatal env ''Storybook upload failed''
      else fatal env (''Storybook upload failed: '' @ errMessage err))"

definition vizdiff :: "env \<Rightarrow> string \<Rightarrow> commandArgs \<Rightarrow> unit cli" where
  "vizdiff env dir options =
     cliBind (getToken env options) (\<lambda>token.
     cliBind (getCommitSha env dir options) (\<lambda>commit.
     cliBind (getBranch env dir options) (\<lambda>currentBranch.
     cliBind (resolveBase env dir options commit currentBranch) (\<lambda>base.
       let pr = getPrNumber env options in
       cliTryCatch
         (cliLift (uploadStorybook env
            \<lparr>storybookDir = dir, commitSha = commit, branch = currentBranch,
             projectToken = token, baseCommitSha = fst base, baseBranch = snd base,
             prNumber = pr\<rparr>))
         (reportUploadError env)))))"

text \<open>
  Lines 38-40, the action of the \<open>upload\<close> command: \<open>vizdiff(storybookDir, options).catch(fatal)\<close>.
\<close>

definition uploadAction :: "env \<Rightarrow> string \<Rightarrow> commandArgs \<Rightarrow> unit cli" where
  "uploadAction env dir options =
     cliTryCatch (vizdiff env dir options) (\<lambda>err. fatal env (errorToString err))"

section \<open>A concrete run\<close>

text \<open>
  A build directory \<open>/repo/storybook-static\<close> with its two manifests inside the git
  repository \<open>/repo\<close>, and an environment in which every call succeeds; the variations
  below change one answer each. The repository has the branches \<open>main\<close>, \<open>feature\<close>,
  which forks from \<open>main\<close>, and \<open>orphan\<close>, whose history shares no commit with that
  of \<open>main\<close>.
\<close>

definition exampleDir :: string where
  "exampleDir = ''/repo/storybook-static''"

definition exampleSha :: string where
  "exampleSha = ''aaaaaaaaaaaaaaaaaaaaaaaaaaaaaaaaaaaaaaaa''"

definition exampleBaseSha :: string where
  "exampleBaseSha = ''bbbbbbbbbbbbbbbbbbbbbbbbbbbbbbbbbbbbbbbb''"

definition exampleProjectJson :: string where
  \<open>exampleProjectJson = ''{"storybookVersion":"7.0.0"}''\<close>

definition exampleIndexJson :: string where
  \<open>exampleIndexJson = ''{"entries":{"story-1":1,"story-2":2}}''\<close>

definition exampleEmptyIndexJson :: string where
  \<open>exampleEmptyIndexJson = ''{"v":5,"entries":{}}''\<close>

definition exampleParse :: "string \<Rightarrow> jsError + json" where
  "exampleParse s =
     (if s = exampleProjectJson then Inr (JObj [(''storybookVersion'', JStr ''7.0.0'')])
      else if s = exampleIndexJson then
        Inr (JObj [(''entries'', JObj [(''story-1'', JNum 1), (''story-2'', JNum 2)])])
      else if s = exampleEmptyIndexJson then Inr (JObj [(''v'', JNum 5), (''entries'', JObj [])])
      else Inl (JsError ''SyntaxError'' ''Unexpected token'' None))"

definition exampleFs :: fileSystem where
  "exampleFs = map_of
     [(''/repo/storybook-static/project.json'', File exampleProjectJson),
      (''/repo/storybook-static/index.json'', File exampleIndexJson),
      (''/repo/.git'', Directory)]"

definition exampleOpts :: uploadStorybookOpts where
  "exampleOpts =
     \<lparr>storybookDir = exampleDir, commitSha = exampleSha, branch = ''main'',
      projectToken = ''0123456789abcdef'', baseCommitSha = Some exampleBaseSha,
      baseBranch = Some ''develop'', prNumber = None\<rparr>"

definition exampleTarball :: string where
  "exampleTarball = ''/tmp/01234567.tar.gz''"

definition okResponse :: response where
  "okResponse =
     \<lparr>responseOk = True, responseStatus = 200, responseStatusText = ''OK'',
      responseContentType = Some ''application/json'',
      responseJson = Inr (JObj [(''success'', JBool True), (''testId'', JStr ''t1'')])\<rparr>"

definition forbiddenResponse :: response where
  "forbiddenResponse =
     \<lparr>responseOk = False, responseStatus = 403, responseStatusText = ''Forbidden'',
      responseContentType = None,
      responseJson = Inl (JsError ''SyntaxError'' ''Unexpected end of JSON input'' None)\<rparr>"

definition logicalFailureResponse :: response where
  "logicalFailureResponse =
     \<lparr>responseOk = True, responseStatus = 200, responseStatusText = ''OK'',
      responseContentType = Some ''application/json'',
      responseJson = Inr (JObj [(''success'', JBool False), (''error'', JStr ''Invalid project token'')])\<rparr>"

definition exampleEnv :: env where
  "exampleEnv =
     \<lparr>pathResolve = (\<lambda>d f. d @ ''/'' @ f),
      pathJoin = (\<lambda>d f. d @ ''/'' @ f),
      pathDirname = (\<lambda>p. if p = ''/repo/storybook-static'' then ''/repo'' else ''/''),
      osTmpdir = ''/tmp'',
      mathRandom16 = (\<lambda>i. i),
      envVIZDIFF_API_URL = None,
      envVIZDIFF_PROJECT_TOKEN = None,
      envVIZDIFF_TOKEN = None,
      fsFault = (\<lambda>op. None),
      jsonParse = exampleParse,
      tarResult = (\<lambda>source target. Inr ''archive bytes''),
      fetchResult = (\<lambda>req. Inr okResponse),
      formatBytes = (\<lambda>n. showNat n @ '' Bytes''),
      gitLogLatest = (\<lambda>gitDir. Inr (Some exampleSha)),
      gitStatusCurrent = (\<lambda>gitDir. Inr (Some ''main'')),
      gitRemotes = (\<lambda>gitDir. Inr [''upstream'', ''origin'']),
      gitRevparse = (\<lambda>gitDir args.
        if args = [''--abbrev-ref'', ''origin/HEAD''] then Inr ''origin/main''
        else if args = [exampleSha @ ''~1''] then Inr exampleBaseSha
        else Inl (JsError ''GitError'' ''unknown revision'' None)),
      gitRaw = (\<lambda>gitDir args.
        if args = [''merge-base'', ''feature'', ''main''] then Inr (exampleBaseSha @ [CHR 0x0A])
        else if args = [''merge-base'', ''orphan'', ''main''] then Inr []
        else Inl (JsError ''GitError'' ''fatal: Not a valid object name'' None)),
      parseInt = (\<lambda>s. if s = ''42'' then Some 42 else None),
      stderrSupportsColor = False\<rparr>"

definition eperm :: jsError where
  "eperm = JsError ''Error'' ''EPERM: operation not permitted, unlink'' None"

definition unlinkFailsEnv :: env where
  "unlinkFailsEnv =
     exampleEnv\<lparr>fsFault := (\<lambda>op. if op = Unlink exampleTarball then Some eperm else None)\<rparr>"

definition transportFailsEnv :: env where
  "transportFailsEnv =
     exampleEnv\<lparr>fetchResult := (\<lambda>req. Inl (JsError ''TypeError'' ''fetch failed'' None))\<rparr>"

definition forbiddenEnv :: env where
  "forbiddenEnv = exampleEnv\<lparr>fetchResult := (\<lambda>req. Inr forbiddenResponse)\<rparr>"

definition logicalFailureEnv :: env where
  "logicalFailureEnv = exampleEnv\<lparr>fetchResult := (\<lambda>req. Inr logicalFailureResponse)\<rparr>"

definition exampleArgs :: commandArgs where
  "exampleArgs =
     \<lparr>optToken = Some ''0123456789abcdef'', optCommit = None, optBranch = None,
      optBaseBranch = None, optBaseCommit = None, optPr = None\<rparr>"

section \<open>Classes of events\<close>

text \<open>Predicates on the events of a run, used to state and prove the properties below.\<close>

definition submitEvent :: "uploadStorybookOpts \<Rightarrow> string \<Rightarrow> event \<Rightarrow> bool" where
  "submitEvent opts t e \<longleftrightarrow>
     e = Fs (ReadFile t) \<or> (\<exists>m. e = Info m)
     \<or> (\<exists>req. e = Fetch req \<and> requestHeaders req = uploadHeaders opts)"

fun isUnlink :: "event \<Rightarrow> bool" where
  "isUnlink (Fs (Unlink p)) = True"
| "isUnlink e = False"

fun isTar :: "event \<Rightarrow> bool" where
  "isTar (Tar s t) = True"
| "isTar e = False"

fun baseResolutionQuery :: "event \<Rightarrow> bool" where
  "baseResolutionQuery (Git gitDir GetRemotes) = True"
| "baseResolutionQuery (Git gitDir (Revparse args)) = True"
| "baseResolutionQuery (Git gitDir (Raw args)) = True"
| "baseResolutionQuery e = False"

definition cliEventsIn :: "(event \<Rightarrow> bool) \<Rightarrow> 'a cli \<Rightarrow> bool" where
  "cliEventsIn A m \<longleftrightarrow> (\<forall>fs r fs' es. m fs = Some (r, fs', es) \<longrightarrow> (\<forall>e \<in> set es. A e))"

fun uploadEvent :: "uploadStorybookOpts \<Rightarrow> event \<Rightarrow> bool" where
  "uploadEvent opts (Fs op) = True"
| "uploadEvent opts (Info msg) = True"
| "uploadEvent opts (Tar source target) = True"
| "uploadEvent opts (Fetch req) = (requestHeaders req = uploadHeaders opts)"
| "uploadEvent opts e = False"

fun explicitBaseEvent :: "string \<Rightarrow> string \<Rightarrow> event \<Rightarrow> bool" where
  "explicitBaseEvent bc bb (Fetch req) =
     (map_of (requestHeaders req) ''X-Vizdiff-Base-Commit-Sha'' = Some bc
      \<and> map_of (requestHeaders req) ''X-Vizdiff-Base-Branch'' = Some bb)"
| "explicitBaseEvent bc bb e = (\<not> baseResolutionQuery e)"

section \<open>Variations of the concrete run\<close>

definition exampleRun :: "env \<Rightarrow> (jsError + unit) \<times> fileSystem \<times> event list" where
  "exampleRun env = uploadStorybook env exampleOpts exampleFs"

definition onlyBaseCommitOpts :: uploadStorybookOpts where
  "onlyBaseCommitOpts = exampleOpts\<lparr>baseBranch := None\<rparr>"

definition onlyBaseCommitRequest :: request where
  "onlyBaseCommitRequest =
     \<lparr>requestUrl = ''https://vizdiff.io/api/upload/storybook?token=0123456789abcdef'',
      requestMethod = ''POST'',
      requestHeaders =
        [(''Content-Type'', ''application/gzip''),
         (''X-Vizdiff-Commit-Sha'', exampleSha),
         (''X-Vizdiff-Branch'', ''main''),
         (''X-Vizdiff-Base-Commit-Sha'', exampleBaseSha)],
      requestBody = ''archive bytes''\<rparr>"

definition missingManifestFs :: fileSystem where
  "missingManifestFs = exampleFs(''/repo/storybook-static/project.json'' := None)"

definition emptyIndexFs :: fileSystem where
  "emptyIndexFs = exampleFs(''/repo/storybook-static/index.json'' \<mapsto> File exampleEmptyIndexJson)"

definition explicitBaseArgs :: commandArgs where
  "explicitBaseArgs =
     exampleArgs\<lparr>optBaseCommit := Some exampleBaseSha, optBaseBranch := Some ''develop''\<rparr>"

definition orphanArgs :: commandArgs where
  "orphanArgs = exampleArgs\<lparr>optBranch := Some ''orphan''\<rparr>"

definition orphanRequest :: request where
  "orphanRequest =
     \<lparr>requestUrl = ''https://vizdiff.io/api/upload/storybook?token=0123456789abcdef'',
      requestMethod = ''POST'',
      requestHeaders =
        [(''Content-Type'', ''application/gzip''),
         (''X-Vizdiff-Commit-Sha'', exampleSha),
         (''X-Vizdiff-Branch'', ''orphan''),
         (''X-Vizdiff-Base-Branch'', ''main'')],
      requestBody = ''archive bytes''\<rparr>"

definition badTokenArgs :: commandArgs where
  "badTokenArgs = exampleArgs\<lparr>optToken := Some ''0123456789aB''\<rparr>"

section \<open>The run of uploadStorybook\<close>

lemma fsAccess_shape: "\<exists>r. fsAccess env p fs = (r, fs, [Fs (Access p)])"
  by (simp add: fsAccess_def split: option.split)

lemma fsReadFile_shape: "\<exists>r. fsReadFile env p fs = (r, fs, [Fs (ReadFile p)])"
  by (simp add: fsReadFile_def split: option.split node.split)

lemma readJson_shape: "\<exists>r. readJson env p fs = (r, fs, [Fs (ReadFile p)])"
proof -
  obtain r where "fsReadFile env p fs = (r, fs, [Fs (ReadFile p)])"
    using fsReadFile_shape by blast
  then show ?thesis
    by (cases r) (simp_all add: readJson_def ioBind_def ioResult_def)
qed

lemma uploadInterpret_shape:
  "\<exists>r es. uploadInterpret resp fs = (r, fs, es) \<and> (\<forall>e \<in> set es. \<exists>m. e = Info m)"
  by (cases "responseJson resp")
     (simp_all add: uploadInterpret_def ioBind_def ioResult_def ioThrow_def info_def)

lemma uploadSubmit_shape:
  "\<exists>r es. uploadSubmit env opts t fs = (r, fs, es) \<and> (\<forall>e \<in> set es. submitEvent opts t e)"
proof -
  obtain r1 where r1: "fsReadFile env t fs = (r1, fs, [Fs (ReadFile t)])"
    using fsReadFile_shape by blast
  show ?thesis
  proof (cases r1)
    case (Inl e)
    with r1 show ?thesis
      by (simp add: uploadSubmit_def ioBind_def submitEvent_def)
  next
    case (Inr body)
    show ?thesis
    proof (cases "fetchResult env \<lparr>requestUrl = stripTrailingSlashes
             (case envVIZDIFF_API_URL env of None \<Rightarrow> ''https://vizdiff.io/api'' | Some u \<Rightarrow> u)
              @ ''/upload/storybook?token='' @ projectToken opts, requestMethod = ''POST'',
                 requestHeaders = uploadHeaders opts, requestBody = body\<rparr>")
      case (Inl e)
      with r1 \<open>r1 = Inr body\<close> show ?thesis
        by (simp add: uploadSubmit_def ioBind_def submitEvent_def info_def fetch_def Let_def)
    next
      case (Inr resp)
      obtain r3 es3 where r3: "uploadInterpret resp fs = (r3, fs, es3)"
        and es3: "\<forall>e \<in> set es3. \<exists>m. e = Info m"
        using uploadInterpret_shape by blast
      with r1 \<open>r1 = Inr body\<close> Inr show ?thesis
        by (auto simp add: uploadSubmit_def ioBind_def submitEvent_def info_def fetch_def
              Let_def ioThrow_def)
    qed
  qed
qed

lemma submitEvent_not_unlink: "submitEvent opts t e \<Longrightarrow> \<not> isUnlink e"
  by (auto simp: submitEvent_def)

lemma submitEvent_not_tar: "submitEvent opts t e \<Longrightarrow> \<not> isTar e"
  by (auto simp: submitEvent_def)

lemma uploadCleanup_run:
  "fs t = Some (File bytes) \<Longrightarrow>
   uploadCleanup env t fs =
     (case fsFault env (Unlink t) of
        Some e \<Rightarrow> (Inl e, fs, [Fs (Unlink t)])
      | None \<Rightarrow> (Inr (), fs(t := None),
                  [Fs (Unlink t), Info (''Deleted storybook tarball: '' @ t)]))"
  by (simp add: uploadCleanup_def ioBind_def fsUnlink_def info_def split: option.split)

lemma package_fail:
  assumes "t = pathJoin env (osTmpdir env) (randHexString env 8 @ ''.tar.gz'')"
    and "tarResult env (storybookDir opts) t = Inl e"
  shows "uploadPackageAndSubmit env opts fs =
           (Inl (newError (''Failed to tar+gzip storybook build folder: '' @ errorToString e)),
            fs, [Tar (storybookDir opts) t])"
  using assms
  by (simp add: uploadPackageAndSubmit_def Let_def ioBind_def tar_def ioThrow_def)

lemma package_run:
  assumes t: "t = pathJoin env (osTmpdir env) (randHexString env 8 @ ''.tar.gz'')"
    and created: "tarResult env (storybookDir opts) t = Inr bytes"
  shows "\<exists>r1 es1.
           uploadSubmit env opts t (fs(t \<mapsto> File bytes)) = (r1, fs(t \<mapsto> File bytes), es1)
           \<and> (\<forall>e \<in> set es1. submitEvent opts t e)
           \<and> uploadPackageAndSubmit env opts fs =
               (case fsFault env (Unlink t) of
                  Some e \<Rightarrow>
                    (Inl e, fs(t \<mapsto> File bytes),
                     [Tar (storybookDir opts) t, Info (''Created storybook tarball: '' @ t)]
                       @ es1 @ [Fs (Unlink t)])
                | None \<Rightarrow>
                    (r1, fs(t := None),
                     [Tar (storybookDir opts) t, Info (''Created storybook tarball: '' @ t)]
                       @ es1 @ [Fs (Unlink t), Info (''Deleted storybook tarball: '' @ t)]))"
proof -
  obtain r1 es1 where
    sub: "uploadSubmit env opts t (fs(t \<mapsto> File bytes)) = (r1, fs(t \<mapsto> File bytes), es1)"
    and ev: "\<forall>e \<in> set es1. submitEvent opts t e"
    using uploadSubmit_shape by blast
  have cl: "uploadCleanup env t (fs(t \<mapsto> File bytes)) =
     (case fsFault env (Unlink t) of
        Some e \<Rightarrow> (Inl e, fs(t \<mapsto> File bytes), [Fs (Unlink t)])
      | None \<Rightarrow> (Inr (), (fs(t \<mapsto> File bytes))(t := None),
                  [Fs (Unlink t), Info (''Deleted storybook tarball: '' @ t)]))"
    by (rule uploadCleanup_run) simp
  have "uploadPackageAndSubmit env opts fs =
               (case fsFault env (Unlink t) of
                  Some e \<Rightarrow>
                    (Inl e, fs(t \<mapsto> File bytes),
                     [Tar (storybookDir opts) t, Info (''Created storybook tarball: '' @ t)]
                       @ es1 @ [Fs (Unlink t)])
                | None \<Rightarrow>
                    (r1, fs(t := None),
                     [Tar (storybookDir opts) t, Info (''Created storybook tarball: '' @ t)]
                       @ es1 @ [Fs (Unlink t), Info (''Deleted storybook tarball: '' @ t)]))"
    using created sub cl
    by (simp add: uploadPackageAndSubmit_def t [symmetric] Let_def ioBind_def tar_def info_def
          tryFinally_def split: option.split)
  with sub ev show ?thesis by blast
qed

lemma uploadStorybook_unfold:
  assumes "isValidGitCommitHash (commitSha opts)"
    and "branch opts \<noteq> []" and "length (branch opts) \<le> 255"
    and "p = pathResolve env (storybookDir opts) ''project.json''"
    and "i = pathResolve env (storybookDir opts) ''index.json''"
  shows "uploadStorybook env opts fs =
    (case fst (fsAccess env p fs) of
       Inl e \<Rightarrow>
         (Inl (newError (''Storybook build manifest does not exist: '' @ p)), fs,
          [Fs (Access p)])
     | Inr u \<Rightarrow>
         (case fst (readJson env p fs) of
            Inl e \<Rightarrow>
              (Inl (newError (''Failed to parse project.json file: '' @ errorToString e)), fs,
               [Fs (Access p), Fs (ReadFile p)])
          | Inr project \<Rightarrow>
              if \<not> truthy project \<or> \<not> typeofString (getProp project ''storybookVersion'') then
                (Inl (newError (''Invalid project.json file: '' @ p)), fs,
                 [Fs (Access p), Fs (ReadFile p)])
              else
                (case fst (readJson env i fs) of
                   Inl e \<Rightarrow>
                     (Inl (newError (''Failed to parse index.json file: '' @ errorToString e)),
                      fs, [Fs (Access p), Fs (ReadFile p), Fs (ReadFile i)])
                 | Inr index \<Rightarrow>
                     if storyCountOf index = 0 then
                       (Inl (newError (''No stories found in index.json file: '' @ i)), fs,
                        [Fs (Access p), Fs (ReadFile p), Fs (ReadFile i)])
                     else
                       (case uploadPackageAndSubmit env opts fs of
                          (r, fs', es) \<Rightarrow>
                            (r, fs',
                             [Fs (Access p), Fs (ReadFile p), Fs (ReadFile i),
                              Info (''Found '' @ showNat (storyCountOf index) @ '' ''
                                @ (if storyCountOf index = 1 then ''story'' else ''stories''))]
                             @ es)))))"
proof -
  obtain ra where ra: "fsAccess env p fs = (ra, fs, [Fs (Access p)])"
    using fsAccess_shape by blast
  obtain rp where rp: "readJson env p fs = (rp, fs, [Fs (ReadFile p)])"
    using readJson_shape by blast
  obtain ri where ri: "readJson env i fs = (ri, fs, [Fs (ReadFile i)])"
    using readJson_shape by blast
  show ?thesis
    using assms(1-3)
    by (simp add: uploadStorybook_def assms(4,5) [symmetric] ra rp ri Let_def ioBind_def
          tryCatch_def ioThrow_def info_def
          split: sum.split prod.split)
qed

lemma uploadStorybook_invalid_input_events:
  assumes "\<not> (isValidGitCommitHash (commitSha opts) \<and> branch opts \<noteq> []
              \<and> length (branch opts) \<le> 255)"
  shows "snd (uploadStorybook env opts fs) = (fs, [])"
  using assms by (auto simp: uploadStorybook_def ioThrow_def)

lemma upload_reaches_packaging:
  assumes run: "uploadStorybook env opts fs = (r, fs', es)"
    and tar: "\<exists>e \<in> set es. isTar e"
    and p: "p = pathResolve env (storybookDir opts) ''project.json''"
    and i: "i = pathResolve env (storybookDir opts) ''index.json''"
  shows "isValidGitCommitHash (commitSha opts) \<and> branch opts \<noteq> []
         \<and> length (branch opts) \<le> 255
         \<and> (\<exists>u. fst (fsAccess env p fs) = Inr u)
         \<and> (\<exists>project. fst (readJson env p fs) = Inr project \<and> truthy project
                \<and> typeofString (getProp project ''storybookVersion''))
         \<and> (\<exists>index es'. fst (readJson env i fs) = Inr index \<and> storyCountOf index \<noteq> 0
                \<and> uploadPackageAndSubmit env opts fs = (r, fs', es')
                \<and> es = [Fs (Access p), Fs (ReadFile p), Fs (ReadFile i),
                         Info (''Found '' @ showNat (storyCountOf index) @ '' ''
                           @ (if storyCountOf index = 1 then ''story'' else ''stories''))] @ es')"
proof -
  have valid: "isValidGitCommitHash (commitSha opts) \<and> branch opts \<noteq> []
              \<and> length (branch opts) \<le> 255"
  proof (rule ccontr)
    assume "\<not> ?thesis"
    then have "snd (uploadStorybook env opts fs) = (fs, [])"
      by (rule uploadStorybook_invalid_input_events)
    with run tar show False by simp
  qed
  then have v: "isValidGitCommitHash (commitSha opts)" "branch opts \<noteq> []"
    "length (branch opts) \<le> 255" by simp_all
  note u = uploadStorybook_unfold [OF v p i, where fs = fs]
  show ?thesis
    using run tar valid unfolding u
    by (auto split: sum.splits if_splits prod.splits)
qed

lemma package_emits_tar:
  "\<exists>e \<in> set (snd (snd (uploadPackageAndSubmit env opts fs))). isTar e"
proof -
  obtain t where t: "t = pathJoin env (osTmpdir env) (randHexString env 8 @ ''.tar.gz'')"
    by simp
  show ?thesis
  proof (cases "tarResult env (storybookDir opts) t")
    case (Inl e)
    show ?thesis unfolding package_fail [OF t Inl] by simp
  next
    case (Inr bytes)
    from package_run [OF t Inr, where fs = fs] show ?thesis
      by (auto split: option.splits)
  qed
qed

lemma upload_without_tar:
  assumes run: "uploadStorybook env opts fs = (r, fs', es)"
    and notar: "\<not> (\<exists>e \<in> set es. isTar e)"
  shows "fs' = fs \<and> (\<forall>req. Fetch req \<notin> set es)"
proof (cases "isValidGitCommitHash (commitSha opts) \<and> branch opts \<noteq> []
              \<and> length (branch opts) \<le> 255")
  case False
  then have "snd (uploadStorybook env opts fs) = (fs, [])"
    by (rule uploadStorybook_invalid_input_events)
  with run show ?thesis by simp
next
  case True
  then have v: "isValidGitCommitHash (commitSha opts)" "branch opts \<noteq> []"
    "length (branch opts) \<le> 255" by simp_all
  note u = uploadStorybook_unfold [OF v refl refl, where fs = fs]
  note pk = package_emits_tar [of env opts fs]
  show ?thesis
    using run notar pk unfolding u
    by (auto split: sum.splits if_splits prod.splits)
qed

lemma run_collapse: "m = (fst m, fst (snd m), snd (snd m))"
  by simp

text \<open>
  C1, as stated, fails: in a run whose upload succeeds and whose \<open>unlink\<close> fails with
  \<open>EPERM\<close>, the archive was created, the upload was acknowledged, one \<open>unlink\<close> of the
  path of the archive was issued, and the archive is still there afterwards.
\<close>

theorem archive_remains_after_failed_unlink:
  "tarResult unlinkFailsEnv exampleDir exampleTarball = Inr ''archive bytes''
   \<and> Tar exampleDir exampleTarball \<in> set (snd (snd (exampleRun unlinkFailsEnv)))
   \<and> Info ''Uploaded storybook build folder, testId=t1, uploadId=undefined''
        \<in> set (snd (snd (exampleRun unlinkFailsEnv)))
   \<and> filter isUnlink (snd (snd (exampleRun unlinkFailsEnv))) = [Fs (Unlink exampleTarball)]
   \<and> fst (snd (exampleRun unlinkFailsEnv)) exampleTarball = Some (File ''archive bytes'')"
  by code_simp

text \<open>
  C1, as amended. In every run of uploadStorybook in which \<open>tar\<close> has produced the
  archive, the events of the run hold exactly one \<open>unlink\<close>, and it is of the path of the
  archive: this is so whatever the guarded block did (a successful upload, an error of
  the transport, a status that is not \<open>ok\<close>, a body with \<open>success: false\<close>, or any other
  error in it). The archive does not exist afterwards provided that this \<open>unlink\<close> does not
  itself fail.
\<close>

theorem archive_unlinked_once_in_every_outcome:
  assumes run: "uploadStorybook env opts fs = (r, fs', es)"
    and t: "t = pathJoin env (osTmpdir env) (randHexString env 8 @ ''.tar.gz'')"
    and created: "tarResult env (storybookDir opts) t = Inr bytes"
    and attempted: "Tar (storybookDir opts) t \<in> set es"
  shows "filter isUnlink es = [Fs (Unlink t)]
         \<and> (fsFault env (Unlink t) = None \<longrightarrow> fs' t = None)"
proof -
  have "\<exists>e \<in> set es. isTar e"
    using attempted by (rule bexI [rotated]) simp
  from upload_reaches_packaging [OF run this refl refl]
  obtain pre es' where pk: "uploadPackageAndSubmit env opts fs = (r, fs', es')"
    and es: "es = pre @ es'" and pre: "filter isUnlink pre = []"
    by auto
  from package_run [OF t created, where fs = fs]
  obtain r1 es1 where ev: "\<forall>e \<in> set es1. submitEvent opts t e"
    and shape: "uploadPackageAndSubmit env opts fs =
               (case fsFault env (Unlink t) of
                  Some e \<Rightarrow>
                    (Inl e, fs(t \<mapsto> File bytes),
                     [Tar (storybookDir opts) t, Info (''Created storybook tarball: '' @ t)]
                       @ es1 @ [Fs (Unlink t)])
                | None \<Rightarrow>
                    (r1, fs(t := None),
                     [Tar (storybookDir opts) t, Info (''Created storybook tarball: '' @ t)]
                       @ es1 @ [Fs (Unlink t), Info (''Deleted storybook tarball: '' @ t)]))"
    by blast
  have no: "filter isUnlink es1 = []"
    using ev by (auto simp: filter_empty_conv dest: submitEvent_not_unlink)
  show ?thesis
    using pk shape es pre no by (auto split: option.splits)
qed

theorem archive_unlinked_once_witness:
  "(fst (exampleRun exampleEnv) = Inr ()
      \<and> Tar exampleDir exampleTarball \<in> set (snd (snd (exampleRun exampleEnv)))
      \<and> filter isUnlink (snd (snd (exampleRun exampleEnv))) = [Fs (Unlink exampleTarball)]
      \<and> fst (snd (exampleRun exampleEnv)) exampleTarball = None)
   \<and> (fst (exampleRun transportFailsEnv) = Inl (JsError ''TypeError'' ''fetch failed'' None)
      \<and> Tar exampleDir exampleTarball \<in> set (snd (snd (exampleRun transportFailsEnv)))
      \<and> filter isUnlink (snd (snd (exampleRun transportFailsEnv))) = [Fs (Unlink exampleTarball)]
      \<and> fst (snd (exampleRun transportFailsEnv)) exampleTarball = None)
   \<and> (fst (exampleRun forbiddenEnv) = Inl (JsError ''Error''
          ''Failed to upload storybook build folder to vizdiff CDN: Forbidden (403)'' (Some 403))
      \<and> Tar exampleDir exampleTarball \<in> set (snd (snd (exampleRun forbiddenEnv)))
      \<and> filter isUnlink (snd (snd (exampleRun forbiddenEnv))) = [Fs (Unlink exampleTarball)]
      \<and> fst (snd (exampleRun forbiddenEnv)) exampleTarball = None)
   \<and> (fst (exampleRun logicalFailureEnv) = Inl (JsError ''Error''
          ''Failed to upload storybook build folder to vizdiff CDN: Invalid project token'' None)
      \<and> Tar exampleDir exampleTarball \<in> set (snd (snd (exampleRun logicalFailureEnv)))
      \<and> filter isUnlink (snd (snd (exampleRun logicalFailureEnv))) = [Fs (Unlink exampleTarball)]
      \<and> fst (snd (exampleRun logicalFailureEnv)) exampleTarball = None)"
proof -
  have dir: "storybookDir exampleOpts = exampleDir"
    by (simp add: exampleOpts_def)
  have r1: "fst (exampleRun exampleEnv) = Inr ()" by code_simp
  have r2: "fst (exampleRun transportFailsEnv) = Inl (JsError ''TypeError'' ''fetch failed'' None)"
    by code_simp
  have r3: "fst (exampleRun forbiddenEnv) = Inl (JsError ''Error''
          ''Failed to upload storybook build folder to vizdiff CDN: Forbidden (403)'' (Some 403))"
    by code_simp
  have r4: "fst (exampleRun logicalFailureEnv) = Inl (JsError ''Error''
          ''Failed to upload storybook build folder to vizdiff CDN: Invalid project token'' None)"
    by code_simp
  have t1: "exampleTarball = pathJoin exampleEnv (osTmpdir exampleEnv)
              (randHexString exampleEnv 8 @ ''.tar.gz'')" by code_simp
  have t2: "exampleTarball = pathJoin transportFailsEnv (osTmpdir transportFailsEnv)
              (randHexString transportFailsEnv 8 @ ''.tar.gz'')" by code_simp
  have t3: "exampleTarball = pathJoin forbiddenEnv (osTmpdir forbiddenEnv)
              (randHexString forbiddenEnv 8 @ ''.tar.gz'')" by code_simp
  have t4: "exampleTarball = pathJoin logicalFailureEnv (osTmpdir logicalFailureEnv)
              (randHexString logicalFailureEnv 8 @ ''.tar.gz'')" by code_simp
  have c1: "tarResult exampleEnv (storybookDir exampleOpts) exampleTarball = Inr ''archive bytes''"
    by code_simp
  have c2: "tarResult transportFailsEnv (storybookDir exampleOpts) exampleTarball = Inr ''archive bytes''"
    by code_simp
  have c3: "tarResult forbiddenEnv (storybookDir exampleOpts) exampleTarball = Inr ''archive bytes''"
    by code_simp
  have c4: "tarResult logicalFailureEnv (storybookDir exampleOpts) exampleTarball = Inr ''archive bytes''"
    by code_simp
  have a1: "Tar (storybookDir exampleOpts) exampleTarball \<in> set (snd (snd (exampleRun exampleEnv)))"
    by code_simp
  have a2: "Tar (storybookDir exampleOpts) exampleTarball \<in> set (snd (snd (exampleRun transportFailsEnv)))"
    by code_simp
  have a3: "Tar (storybookDir exampleOpts) exampleTarball \<in> set (snd (snd (exampleRun forbiddenEnv)))"
    by code_simp
  have a4: "Tar (storybookDir exampleOpts) exampleTarball \<in> set (snd (snd (exampleRun logicalFailureEnv)))"
    by code_simp
  have f1: "fsFault exampleEnv (Unlink exampleTarball) = None" by code_simp
  have f2: "fsFault transportFailsEnv (Unlink exampleTarball) = None" by code_simp
  have f3: "fsFault forbiddenEnv (Unlink exampleTarball) = None" by code_simp
  have f4: "fsFault logicalFailureEnv (Unlink exampleTarball) = None" by code_simp
  note w1 = archive_unlinked_once_in_every_outcome
              [OF run_collapse t1 c1 a1 [unfolded exampleRun_def], folded exampleRun_def]
  note w2 = archive_unlinked_once_in_every_outcome
              [OF run_collapse t2 c2 a2 [unfolded exampleRun_def], folded exampleRun_def]
  note w3 = archive_unlinked_once_in_every_outcome
              [OF run_collapse t3 c3 a3 [unfolded exampleRun_def], folded exampleRun_def]
  note w4 = archive_unlinked_once_in_every_outcome
              [OF run_collapse t4 c4 a4 [unfolded exampleRun_def], folded exampleRun_def]
  show ?thesis
    using r1 r2 r3 r4 a1 a2 a3 a4 w1 w2 w3 w4 f1 f2 f3 f4
    unfolding dir by blast
qed

text \<open>
  C2, as stated, fails: the same run, with every call succeeding, resolves; with an
  \<open>unlink\<close> that fails with \<open>EPERM\<close> it rejects with that error.
\<close>

theorem unlink_failure_changes_outcome:
  "fst (exampleRun exampleEnv) = Inr () \<and> fst (exampleRun unlinkFailsEnv) = Inl eperm"
  by code_simp

text \<open>
  C2, as amended. A failure of the \<open>unlink\<close> in the \<open>finally\<close> block is escalated: the
  call rejects with the error of the \<open>unlink\<close>, which replaces the outcome of submission
  and interpretation, a success as well as an error. Only when the \<open>unlink\<close> succeeds is
  the outcome of the call that of submission and interpretation.
\<close>

theorem unlink_failure_is_the_result:
  assumes run: "uploadStorybook env opts fs = (r, fs', es)"
    and t: "t = pathJoin env (osTmpdir env) (randHexString env 8 @ ''.tar.gz'')"
    and created: "tarResult env (storybookDir opts) t = Inr bytes"
    and attempted: "Tar (storybookDir opts) t \<in> set es"
  shows "r = (case fsFault env (Unlink t) of
                Some e \<Rightarrow> Inl e
              | None \<Rightarrow> fst (uploadSubmit env opts t (fs(t \<mapsto> File bytes))))"
proof -
  have "\<exists>e \<in> set es. isTar e"
    using attempted by (rule bexI [rotated]) simp
  from upload_reaches_packaging [OF run this refl refl]
  obtain es' where pk: "uploadPackageAndSubmit env opts fs = (r, fs', es')"
    by auto
  from package_run [OF t created, where fs = fs] pk show ?thesis
    by (auto split: option.splits)
qed

theorem unlink_failure_is_the_result_witness:
  "tarResult unlinkFailsEnv exampleDir exampleTarball = Inr ''archive bytes''
   \<and> Tar exampleDir exampleTarball \<in> set (snd (snd (exampleRun unlinkFailsEnv)))
   \<and> fsFault unlinkFailsEnv (Unlink exampleTarball) = Some eperm
   \<and> fst (exampleRun unlinkFailsEnv) = Inl eperm"
proof -
  have dir: "storybookDir exampleOpts = exampleDir"
    by (simp add: exampleOpts_def)
  have t: "exampleTarball = pathJoin unlinkFailsEnv (osTmpdir unlinkFailsEnv)
              (randHexString unlinkFailsEnv 8 @ ''.tar.gz'')" by code_simp
  have c: "tarResult unlinkFailsEnv (storybookDir exampleOpts) exampleTarball = Inr ''archive bytes''"
    by code_simp
  have a: "Tar (storybookDir exampleOpts) exampleTarball \<in> set (snd (snd (exampleRun unlinkFailsEnv)))"
    by code_simp
  have f: "fsFault unlinkFailsEnv (Unlink exampleTarball) = Some eperm" by code_simp
  note w = unlink_failure_is_the_result
             [OF run_collapse t c a [unfolded exampleRun_def], folded exampleRun_def]
  show ?thesis
    using w c a f unfolding dir by simp
qed

text \<open>
  When the \<open>unlink\<close> itself fails, the archive is still there after the call, which
  rejects with the error of the \<open>unlink\<close>.
\<close>

lemma failed_unlink_leaves_archive:
  assumes run: "uploadStorybook env opts fs = (r, fs', es)"
    and t: "t = pathJoin env (osTmpdir env) (randHexString env 8 @ ''.tar.gz'')"
    and created: "tarResult env (storybookDir opts) t = Inr bytes"
    and attempted: "Tar (storybookDir opts) t \<in> set es"
    and failed: "fsFault env (Unlink t) = Some e"
  shows "fs' t = Some (File bytes) \<and> r = Inl e"
proof -
  have "\<exists>e \<in> set es. isTar e"
    using attempted by (rule bexI [rotated]) simp
  from upload_reaches_packaging [OF run this refl refl]
  obtain es' where pk: "uploadPackageAndSubmit env opts fs = (r, fs', es')"
    by auto
  from package_run [OF t created, where fs = fs] pk failed show ?thesis
    by auto
qed

lemma map_of_uploadHeaders:
  "map_of (uploadHeaders opts) ''X-Vizdiff-Commit-Sha'' = Some (commitSha opts)"
  "map_of (uploadHeaders opts) ''X-Vizdiff-Branch'' = Some (branch opts)"
  "map_of (uploadHeaders opts) ''X-Vizdiff-Base-Commit-Sha'' =
     (if truthyString (baseCommitSha opts) then baseCommitSha opts else None)"
  "map_of (uploadHeaders opts) ''X-Vizdiff-Base-Branch'' =
     (if truthyString (baseBranch opts) then baseBranch opts else None)"
  by (simp_all add: uploadHeaders_def truthyString_def split: option.split)

lemma fetch_has_uploadHeaders:
  assumes run: "uploadStorybook env opts fs = (r, fs', es)"
    and req: "Fetch req \<in> set es"
  shows "requestHeaders req = uploadHeaders opts"
proof (cases "\<exists>e \<in> set es. isTar e")
  case False
  from upload_without_tar [OF run False] req show ?thesis
    by blast
next
  case True
  from upload_reaches_packaging [OF run True refl refl]
  obtain pre es' where pk: "uploadPackageAndSubmit env opts fs = (r, fs', es')"
    and es: "es = pre @ es'" and pre: "Fetch req \<notin> set pre"
    by auto
  obtain t where t: "t = pathJoin env (osTmpdir env) (randHexString env 8 @ ''.tar.gz'')"
    by simp
  show ?thesis
  proof (cases "tarResult env (storybookDir opts) t")
    case (Inl e)
    with pk es pre req show ?thesis
      unfolding package_fail [OF t Inl] by auto
  next
    case (Inr bytes)
    from package_run [OF t Inr, where fs = fs]
    obtain r1 es1 where ev: "\<forall>e \<in> set es1. submitEvent opts t e"
      and shape: "uploadPackageAndSubmit env opts fs =
               (case fsFault env (Unlink t) of
                  Some e \<Rightarrow>
                    (Inl e, fs(t \<mapsto> File bytes),
                     [Tar (storybookDir opts) t, Info (''Created storybook tarball: '' @ t)]
                       @ es1 @ [Fs (Unlink t)])
                | None \<Rightarrow>
                    (r1, fs(t := None),
                     [Tar (storybookDir opts) t, Info (''Created storybook tarball: '' @ t)]
                       @ es1 @ [Fs (Unlink t), Info (''Deleted storybook tarball: '' @ t)]))"
      by blast
    have sub: "set es' \<subseteq> set es1 \<union> {Tar (storybookDir opts) t,
           Info (''Created storybook tarball: '' @ t), Fs (Unlink t),
           Info (''Deleted storybook tarball: '' @ t)}"
      using pk shape by (auto split: option.splits)
    have "Fetch req \<in> set es1"
      using req es pre sub by auto
    with ev show ?thesis
      by (auto simp: submitEvent_def)
  qed
qed

text \<open>
  C3, as stated, fails: with a base commit and no base branch, the request that is
  submitted carries \<open>X-Vizdiff-Base-Commit-Sha\<close>.
\<close>

theorem base_commit_header_sent_without_base_branch:
  "baseCommitSha onlyBaseCommitOpts = Some exampleBaseSha
   \<and> baseBranch onlyBaseCommitOpts = None
   \<and> Fetch onlyBaseCommitRequest
        \<in> set (snd (snd (uploadStorybook exampleEnv onlyBaseCommitOpts exampleFs)))
   \<and> map_of (requestHeaders onlyBaseCommitRequest) ''X-Vizdiff-Base-Commit-Sha''
        = Some exampleBaseSha"
  by code_simp

text \<open>
  C3, as amended. Every request that uploadStorybook submits carries \<open>X-Vizdiff-Commit-Sha\<close>
  and \<open>X-Vizdiff-Branch\<close>; it carries \<open>X-Vizdiff-Base-Commit-Sha\<close> exactly when
  \<open>baseCommitSha\<close> is present and not empty, and \<open>X-Vizdiff-Base-Branch\<close> exactly when
  \<open>baseBranch\<close> is present and not empty, each independently of the other.
\<close>

theorem upload_headers_are_independent:
  assumes "uploadStorybook env opts fs = (r, fs', es)"
    and "Fetch req \<in> set es"
  shows "map_of (requestHeaders req) ''X-Vizdiff-Commit-Sha'' = Some (commitSha opts)
       \<and> map_of (requestHeaders req) ''X-Vizdiff-Branch'' = Some (branch opts)
       \<and> map_of (requestHeaders req) ''X-Vizdiff-Base-Commit-Sha'' =
           (if truthyString (baseCommitSha opts) then baseCommitSha opts else None)
       \<and> map_of (requestHeaders req) ''X-Vizdiff-Base-Branch'' =
           (if truthyString (baseBranch opts) then baseBranch opts else None)"
  unfolding fetch_has_uploadHeaders [OF assms]
  by (simp only: map_of_uploadHeaders simp_thms)

theorem upload_headers_witness:
  "Fetch onlyBaseCommitRequest
        \<in> set (snd (snd (uploadStorybook exampleEnv onlyBaseCommitOpts exampleFs)))
   \<and> map_of (requestHeaders onlyBaseCommitRequest) ''X-Vizdiff-Commit-Sha'' = Some exampleSha
   \<and> map_of (requestHeaders onlyBaseCommitRequest) ''X-Vizdiff-Branch'' = Some ''main''
   \<and> map_of (requestHeaders onlyBaseCommitRequest) ''X-Vizdiff-Base-Commit-Sha''
        = Some exampleBaseSha
   \<and> map_of (requestHeaders onlyBaseCommitRequest) ''X-Vizdiff-Base-Branch'' = None"
proof -
  have m: "Fetch onlyBaseCommitRequest
        \<in> set (snd (snd (uploadStorybook exampleEnv onlyBaseCommitOpts exampleFs)))"
    by code_simp
  have o: "commitSha onlyBaseCommitOpts = exampleSha" "branch onlyBaseCommitOpts = ''main''"
    "baseCommitSha onlyBaseCommitOpts = Some exampleBaseSha"
    "baseBranch onlyBaseCommitOpts = None" "exampleBaseSha \<noteq> []"
    by (simp_all add: onlyBaseCommitOpts_def exampleOpts_def exampleBaseSha_def)
  note w = upload_headers_are_independent [OF run_collapse m]
  show ?thesis
    using w m by (simp add: o truthyString_def)
qed

lemma fsAccess_fails:
  "fs p = None \<or> fsFault env (Access p) \<noteq> None \<Longrightarrow> \<exists>e. fst (fsAccess env p fs) = Inl e"
  by (auto simp: fsAccess_def split: option.split)

text \<open>
  C7. With a valid commit SHA and branch, if \<open>project.json\<close> is absent or \<open>fs.access\<close>
  fails on it, uploadStorybook rejects with the message
  \<open>Storybook build manifest does not exist: <path>\<close>, where \<open>path\<close> is the resolved path,
  after the \<open>access\<close> call alone and with the file system unchanged. More generally
  \<open>tar\<close> is called only when \<open>project.json\<close> was accessible, parsed and valid and
  \<open>index.json\<close> parsed with at least one story; and a run without a call of \<open>tar\<close>
  leaves the file system as it was, so that no archive exists.
\<close>

theorem missing_manifest_stops_before_packaging:
  "(isValidGitCommitHash (commitSha opts) \<and> branch opts \<noteq> [] \<and> length (branch opts) \<le> 255
      \<and> p = pathResolve env (storybookDir opts) ''project.json''
      \<and> (fs p = None \<or> fsFault env (Access p) \<noteq> None)
    \<longrightarrow> uploadStorybook env opts fs =
          (Inl (JsError ''Error'' (''Storybook build manifest does not exist: '' @ p) None),
           fs, [Fs (Access p)]))
   \<and> (uploadStorybook env opts fs = (r, fs', es) \<and> (\<exists>e \<in> set es. isTar e)
    \<longrightarrow> (\<exists>u. fst (fsAccess env (pathResolve env (storybookDir opts) ''project.json'') fs) = Inr u)
        \<and> (\<exists>project.
              fst (readJson env (pathResolve env (storybookDir opts) ''project.json'') fs)
                = Inr project
              \<and> truthy project \<and> typeofString (getProp project ''storybookVersion''))
        \<and> (\<exists>index.
              fst (readJson env (pathResolve env (storybookDir opts) ''index.json'') fs)
                = Inr index
              \<and> storyCountOf index \<noteq> 0))
   \<and> (uploadStorybook env opts fs = (r, fs', es) \<and> \<not> (\<exists>e \<in> set es. isTar e)
    \<longrightarrow> fs' = fs)"
proof (intro conjI impI)
  assume a: "isValidGitCommitHash (commitSha opts) \<and> branch opts \<noteq> []
      \<and> length (branch opts) \<le> 255
      \<and> p = pathResolve env (storybookDir opts) ''project.json''
      \<and> (fs p = None \<or> fsFault env (Access p) \<noteq> None)"
  then have v: "isValidGitCommitHash (commitSha opts)" "branch opts \<noteq> []"
    "length (branch opts) \<le> 255" "p = pathResolve env (storybookDir opts) ''project.json''"
    by simp_all
  from a obtain e where "fst (fsAccess env p fs) = Inl e"
    using fsAccess_fails by blast
  then show "uploadStorybook env opts fs =
          (Inl (JsError ''Error'' (''Storybook build manifest does not exist: '' @ p) None),
           fs, [Fs (Access p)])"
    unfolding uploadStorybook_unfold [OF v refl, where fs = fs]
    by (simp add: newError_def)
next
  assume b: "uploadStorybook env opts fs = (r, fs', es) \<and> (\<exists>e \<in> set es. isTar e)"
  then have run: "uploadStorybook env opts fs = (r, fs', es)" and tar: "\<exists>e \<in> set es. isTar e"
    by simp_all
  note reach = upload_reaches_packaging [OF run tar refl refl]
  from reach show "\<exists>u. fst (fsAccess env (pathResolve env (storybookDir opts) ''project.json'') fs) = Inr u"
    by blast
  from reach show "\<exists>project.
              fst (readJson env (pathResolve env (storybookDir opts) ''project.json'') fs)
                = Inr project
              \<and> truthy project \<and> typeofString (getProp project ''storybookVersion'')"
    by blast
  from reach show "\<exists>index.
              fst (readJson env (pathResolve env (storybookDir opts) ''index.json'') fs)
                = Inr index
              \<and> storyCountOf index \<noteq> 0"
    by blast
next
  assume "uploadStorybook env opts fs = (r, fs', es) \<and> \<not> (\<exists>e \<in> set es. isTar e)"
  then show "fs' = fs"
    using upload_without_tar by blast
qed

theorem missing_manifest_witness:
  "isValidGitCommitHash (commitSha exampleOpts)
   \<and> missingManifestFs ''/repo/storybook-static/project.json'' = None
   \<and> uploadStorybook exampleEnv exampleOpts missingManifestFs =
       (Inl (JsError ''Error''
          ''Storybook build manifest does not exist: /repo/storybook-static/project.json'' None),
        missingManifestFs, [Fs (Access ''/repo/storybook-static/project.json'')])
   \<and> \<not> (\<exists>e \<in> set (snd (snd (uploadStorybook exampleEnv exampleOpts missingManifestFs))). isTar e)
   \<and> fst (snd (uploadStorybook exampleEnv exampleOpts missingManifestFs)) = missingManifestFs
   \<and> (\<exists>e \<in> set (snd (snd (exampleRun exampleEnv))). isTar e)
   \<and> (\<exists>index. fst (readJson exampleEnv (pathResolve exampleEnv (storybookDir exampleOpts)
                       ''index.json'') exampleFs) = Inr index
          \<and> storyCountOf index \<noteq> 0)"
proof -
  have v: "isValidGitCommitHash (commitSha exampleOpts)" by code_simp
  have b: "branch exampleOpts \<noteq> []" "length (branch exampleOpts) \<le> 255" by code_simp+
  have p: "''/repo/storybook-static/project.json''
             = pathResolve exampleEnv (storybookDir exampleOpts) ''project.json''" by code_simp
  have a: "missingManifestFs ''/repo/storybook-static/project.json'' = None" by code_simp
  have nt: "\<not> (\<exists>e \<in> set (snd (snd (uploadStorybook exampleEnv exampleOpts missingManifestFs))).
                isTar e)" by code_simp
  have yt: "\<exists>e \<in> set (snd (snd (exampleRun exampleEnv))). isTar e" by code_simp
  note w1 = missing_manifest_stops_before_packaging
     [where env = exampleEnv and opts = exampleOpts and fs = missingManifestFs
        and p = "''/repo/storybook-static/project.json''"
        and r = "fst (uploadStorybook exampleEnv exampleOpts missingManifestFs)"
        and fs' = "fst (snd (uploadStorybook exampleEnv exampleOpts missingManifestFs))"
        and es = "snd (snd (uploadStorybook exampleEnv exampleOpts missingManifestFs))"]
  note w2 = missing_manifest_stops_before_packaging
     [where env = exampleEnv and opts = exampleOpts and fs = exampleFs
        and p = "''/repo/storybook-static/project.json''"
        and r = "fst (exampleRun exampleEnv)"
        and fs' = "fst (snd (exampleRun exampleEnv))"
        and es = "snd (snd (exampleRun exampleEnv))"]
  have c1: "uploadStorybook exampleEnv exampleOpts missingManifestFs =
       (Inl (JsError ''Error''
          ''Storybook build manifest does not exist: /repo/storybook-static/project.json'' None),
        missingManifestFs, [Fs (Access ''/repo/storybook-static/project.json'')])"
    using w1 v b p a by simp
  have c3: "fst (snd (uploadStorybook exampleEnv exampleOpts missingManifestFs)) = missingManifestFs"
    using w1 nt by simp
  have c2: "\<exists>index. fst (readJson exampleEnv (pathResolve exampleEnv (storybookDir exampleOpts)
                       ''index.json'') exampleFs) = Inr index
          \<and> storyCountOf index \<noteq> 0"
    using w2 yt unfolding exampleRun_def by simp
  show ?thesis
    using v a c1 nt c3 yt c2 by blast
qed

lemma storyCountOf_object:
  "storyCountOf (JObj flds) \<noteq> 0 \<longleftrightarrow>
     (\<exists>kvs. map_of flds ''entries'' = Some (JObj kvs) \<and> kvs \<noteq> [])
     \<or> (\<exists>xs. map_of flds ''entries'' = Some (JArr xs) \<and> xs \<noteq> [])"
proof (cases "map_of flds ''entries''")
  case None
  then show ?thesis by (simp add: storyCountOf_def)
next
  case (Some entries)
  then show ?thesis
    by (cases entries) (simp_all add: storyCountOf_def)
qed

text \<open>
  C8. When the checks before it pass and \<open>index.json\<close> parses to an object, uploadStorybook
  rejects with \<open>No stories found in index.json file: <path>\<close> if \<open>entries\<close> is missing or
  is the empty object; and it goes on to packaging (\<open>tar\<close> is called) exactly when
  \<open>entries\<close> has at least one key, that is when it is an object with a field (or an
  array with an element, whose keys for \<open>Object.keys\<close> are its indices). In every other
  case it rejects with that same error.
\<close>

theorem no_stories_iff_entries_without_key:
  assumes "isValidGitCommitHash (commitSha opts)"
    and "branch opts \<noteq> []" and "length (branch opts) \<le> 255"
    and "p = pathResolve env (storybookDir opts) ''project.json''"
    and "i = pathResolve env (storybookDir opts) ''index.json''"
    and "fst (fsAccess env p fs) = Inr u"
    and "fst (readJson env p fs) = Inr project"
    and "truthy project" and "typeofString (getProp project ''storybookVersion'')"
    and "fst (readJson env i fs) = Inr (JObj flds)"
    and "t = pathJoin env (osTmpdir env) (randHexString env 8 @ ''.tar.gz'')"
  shows "(map_of flds ''entries'' = None \<or> map_of flds ''entries'' = Some (JObj [])
          \<longrightarrow> uploadStorybook env opts fs =
                (Inl (JsError ''Error'' (''No stories found in index.json file: '' @ i) None),
                 fs, [Fs (Access p), Fs (ReadFile p), Fs (ReadFile i)]))
       \<and> (Tar (storybookDir opts) t \<in> set (snd (snd (uploadStorybook env opts fs)))
            \<longleftrightarrow> (\<exists>kvs. map_of flds ''entries'' = Some (JObj kvs) \<and> kvs \<noteq> [])
                \<or> (\<exists>xs. map_of flds ''entries'' = Some (JArr xs) \<and> xs \<noteq> []))
       \<and> (Tar (storybookDir opts) t \<notin> set (snd (snd (uploadStorybook env opts fs)))
            \<longrightarrow> uploadStorybook env opts fs =
                (Inl (JsError ''Error'' (''No stories found in index.json file: '' @ i) None),
                 fs, [Fs (Access p), Fs (ReadFile p), Fs (ReadFile i)]))"
proof -
  note u = uploadStorybook_unfold [OF assms(1-5), where fs = fs]
  have zero: "storyCountOf (JObj flds) = 0 \<Longrightarrow> uploadStorybook env opts fs =
                (Inl (JsError ''Error'' (''No stories found in index.json file: '' @ i) None),
                 fs, [Fs (Access p), Fs (ReadFile p), Fs (ReadFile i)])"
    unfolding u using assms(6-10) by (simp add: newError_def)
  have tarfirst: "\<exists>es1. snd (snd (uploadPackageAndSubmit env opts fs))
                    = Tar (storybookDir opts) t # es1"
  proof (cases "tarResult env (storybookDir opts) t")
    case (Inl e)
    show ?thesis unfolding package_fail [OF assms(11) Inl] by simp
  next
    case (Inr bytes)
    from package_run [OF assms(11) Inr, where fs = fs] show ?thesis
      by (auto split: option.splits)
  qed
  have pos: "storyCountOf (JObj flds) \<noteq> 0 \<Longrightarrow>
      Tar (storybookDir opts) t \<in> set (snd (snd (uploadStorybook env opts fs)))"
    unfolding u using assms(6-10) tarfirst by (auto split: prod.splits)
  have neg: "storyCountOf (JObj flds) = 0 \<Longrightarrow>
      Tar (storybookDir opts) t \<notin> set (snd (snd (uploadStorybook env opts fs)))"
    using zero by simp
  have c1: "map_of flds ''entries'' = None \<or> map_of flds ''entries'' = Some (JObj [])
      \<Longrightarrow> storyCountOf (JObj flds) = 0"
    by (auto simp: storyCountOf_def)
  show ?thesis
    using zero pos neg c1 storyCountOf_object [of flds] by blast
qed

theorem no_stories_witness:
  "map_of [(''v'', JNum 5), (''entries'', JObj [])] ''entries'' = Some (JObj [])
   \<and> fst (readJson exampleEnv ''/repo/storybook-static/index.json'' emptyIndexFs)
        = Inr (JObj [(''v'', JNum 5), (''entries'', JObj [])])
   \<and> uploadStorybook exampleEnv exampleOpts emptyIndexFs =
        (Inl (JsError ''Error''
           ''No stories found in index.json file: /repo/storybook-static/index.json'' None),
         emptyIndexFs,
         [Fs (Access ''/repo/storybook-static/project.json''),
          Fs (ReadFile ''/repo/storybook-static/project.json''),
          Fs (ReadFile ''/repo/storybook-static/index.json'')])
   \<and> Tar (storybookDir exampleOpts) exampleTarball
        \<notin> set (snd (snd (uploadStorybook exampleEnv exampleOpts emptyIndexFs)))
   \<and> fst (readJson exampleEnv ''/repo/storybook-static/index.json'' exampleFs)
        = Inr (JObj [(''entries'', JObj [(''story-1'', JNum 1), (''story-2'', JNum 2)])])
   \<and> Tar (storybookDir exampleOpts) exampleTarball
        \<in> set (snd (snd (uploadStorybook exampleEnv exampleOpts exampleFs)))"
proof -
  have v: "isValidGitCommitHash (commitSha exampleOpts)" by code_simp
  have b1: "branch exampleOpts \<noteq> []" by code_simp
  have b2: "length (branch exampleOpts) \<le> 255" by code_simp
  have p: "''/repo/storybook-static/project.json''
             = pathResolve exampleEnv (storybookDir exampleOpts) ''project.json''" by code_simp
  have i: "''/repo/storybook-static/index.json''
             = pathResolve exampleEnv (storybookDir exampleOpts) ''index.json''" by code_simp
  have t: "exampleTarball = pathJoin exampleEnv (osTmpdir exampleEnv)
              (randHexString exampleEnv 8 @ ''.tar.gz'')" by code_simp
  have pr: "truthy (JObj [(''storybookVersion'', JStr ''7.0.0'')])"
    "typeofString (getProp (JObj [(''storybookVersion'', JStr ''7.0.0'')]) ''storybookVersion'')"
    by code_simp+
  have a1: "fst (fsAccess exampleEnv ''/repo/storybook-static/project.json'' emptyIndexFs) = Inr ()"
    by code_simp
  have a2: "fst (fsAccess exampleEnv ''/repo/storybook-static/project.json'' exampleFs) = Inr ()"
    by code_simp
  have p1: "fst (readJson exampleEnv ''/repo/storybook-static/project.json'' emptyIndexFs)
              = Inr (JObj [(''storybookVersion'', JStr ''7.0.0'')])" by code_simp
  have p2: "fst (readJson exampleEnv ''/repo/storybook-static/project.json'' exampleFs)
              = Inr (JObj [(''storybookVersion'', JStr ''7.0.0'')])" by code_simp
  have i1: "fst (readJson exampleEnv ''/repo/storybook-static/index.json'' emptyIndexFs)
        = Inr (JObj [(''v'', JNum 5), (''entries'', JObj [])])" by code_simp
  have i2: "fst (readJson exampleEnv ''/repo/storybook-static/index.json'' exampleFs)
        = Inr (JObj [(''entries'', JObj [(''story-1'', JNum 1), (''story-2'', JNum 2)])])"
    by code_simp
  have m1: "map_of [(''v'', JNum 5), (''entries'', JObj [])] ''entries'' = Some (JObj [])"
    by simp
  have m2: "map_of [(''entries'', JObj [(''story-1'', JNum 1), (''story-2'', JNum 2)])] ''entries''
              = Some (JObj [(''story-1'', JNum 1), (''story-2'', JNum 2)])"
    by simp
  note w1 = no_stories_iff_entries_without_key [OF v b1 b2 p i a1 p1 pr i1 t]
  note w2 = no_stories_iff_entries_without_key [OF v b1 b2 p i a2 p2 pr i2 t]
  have "uploadStorybook exampleEnv exampleOpts emptyIndexFs =
        (Inl (JsError ''Error''
           (''No stories found in index.json file: '' @ ''/repo/storybook-static/index.json'') None),
         emptyIndexFs,
         [Fs (Access ''/repo/storybook-static/project.json''),
          Fs (ReadFile ''/repo/storybook-static/project.json''),
          Fs (ReadFile ''/repo/storybook-static/index.json'')])"
    by (rule w1 [THEN conjunct1, THEN mp]) (rule disjI2, rule m1)
  then have c1: "uploadStorybook exampleEnv exampleOpts emptyIndexFs =
        (Inl (JsError ''Error''
           ''No stories found in index.json file: /repo/storybook-static/index.json'' None),
         emptyIndexFs,
         [Fs (Access ''/repo/storybook-static/project.json''),
          Fs (ReadFile ''/repo/storybook-static/project.json''),
          Fs (ReadFile ''/repo/storybook-static/index.json'')])"
    by simp
  have c2: "Tar (storybookDir exampleOpts) exampleTarball
        \<notin> set (snd (snd (uploadStorybook exampleEnv exampleOpts emptyIndexFs)))"
    unfolding c1 by simp
  have "(\<exists>kvs. map_of [(''entries'', JObj [(''story-1'', JNum 1), (''story-2'', JNum 2)])] ''entries''
              = Some (JObj kvs) \<and> kvs \<noteq> [])"
    unfolding m2 by blast
  then have c3: "Tar (storybookDir exampleOpts) exampleTarball
        \<in> set (snd (snd (uploadStorybook exampleEnv exampleOpts exampleFs)))"
    using w2 [THEN conjunct2, THEN conjunct1] by blast
  show ?thesis
    using m1 i1 c1 c2 i2 c3 by blast
qed

section \<open>The command-line layer\<close>

lemma find_origin:
  "''origin'' \<in> set remotes \<Longrightarrow> find (\<lambda>r. r = ''origin'') remotes = Some ''origin''"
  by (induction remotes) auto

lemmas cli_defs =
  cliBind_def cliReturn_def cliThrow_def cliTryCatch_def cliLift_def
  gitCall_def cliFindGitRoot_def fatal_def

lemma cliEventsIn_bind:
  assumes "cliEventsIn A m" and "\<And>x. cliEventsIn A (f x)"
  shows "cliEventsIn A (cliBind m f)"
  unfolding cliEventsIn_def
proof (intro allI impI)
  fix fs r fs' es
  assume run: "cliBind m f fs = Some (r, fs', es)"
  then obtain r1 fs1 es1 where m: "m fs = Some (r1, fs1, es1)"
    by (cases "m fs") (auto simp: cliBind_def)
  from assms(1) m have e1: "\<forall>e \<in> set es1. A e"
    unfolding cliEventsIn_def by blast
  show "\<forall>e \<in> set es. A e"
  proof (cases r1)
    case (Inl e)
    with run m e1 show ?thesis by (simp add: cliBind_def)
  next
    case (Inr x)
    with run m obtain es2 where f: "f x fs1 = Some (r, fs', es2)" and es: "es = es1 @ es2"
      by (cases "f x fs1") (auto simp: cliBind_def)
    from assms(2) f have "\<forall>e \<in> set es2. A e"
      unfolding cliEventsIn_def by blast
    with e1 es show ?thesis by auto
  qed
qed

lemma cliEventsIn_tryCatch:
  assumes "cliEventsIn A m" and "\<And>e. cliEventsIn A (h e)"
  shows "cliEventsIn A (cliTryCatch m h)"
  unfolding cliEventsIn_def
proof (intro allI impI)
  fix fs r fs' es
  assume run: "cliTryCatch m h fs = Some (r, fs', es)"
  then obtain r1 fs1 es1 where m: "m fs = Some (r1, fs1, es1)"
    by (cases "m fs") (auto simp: cliTryCatch_def)
  from assms(1) m have e1: "\<forall>e \<in> set es1. A e"
    unfolding cliEventsIn_def by blast
  show "\<forall>e \<in> set es. A e"
  proof (cases r1)
    case (Inr x)
    with run m e1 show ?thesis by (simp add: cliTryCatch_def)
  next
    case (Inl failure)
    show ?thesis
    proof (cases failure)
      case (Exited code)
      with Inl run m e1 show ?thesis by (simp add: cliTryCatch_def)
    next
      case (Thrown err)
      with Inl run m obtain es2 where f: "h err fs1 = Some (r, fs', es2)"
        and es: "es = es1 @ es2"
        by (cases "h err fs1") (auto simp: cliTryCatch_def)
      from assms(2) f have "\<forall>e \<in> set es2. A e"
        unfolding cliEventsIn_def by blast
      with e1 es show ?thesis by auto
    qed
  qed
qed

lemma cliEventsIn_silent:
  "cliEventsIn A (cliReturn x)" "cliEventsIn A (cliThrow err)"
  by (simp_all add: cliEventsIn_def cli_defs)

lemma cliEventsIn_fatal:
  assumes "\<And>line. A (ConsoleError line)"
  shows "cliEventsIn A (fatal env msg)"
  using assms by (simp add: cliEventsIn_def fatal_def)

lemma cliEventsIn_getToken:
  assumes "\<And>line. A (ConsoleError line)"
  shows "cliEventsIn A (getToken env options)"
  unfolding getToken_def
  by (auto intro!: cliEventsIn_fatal cliEventsIn_silent assms split: option.split)

lemma cliEventsIn_gitCall: "A (Git gitDir q) \<Longrightarrow> cliEventsIn A (gitCall gitDir q answer)"
  by (auto simp: cliEventsIn_def gitCall_def cliLift_def split: sum.splits)

lemma findGitRoot_events:
  assumes "findGitRoot env fs dir = Some y"
  shows "\<forall>e \<in> set (snd y). \<exists>p. e = ExistsSync p"
proof (rule findGitRoot.raw_induct
         [where P = "\<lambda>env fs dir y. \<forall>e \<in> set (snd y). \<exists>p. e = ExistsSync p", OF _ assms])
  fix f :: "env \<Rightarrow> fileSystem \<Rightarrow> string \<Rightarrow> (string option \<times> event list) option"
    and env fs dir y
  assume ih: "\<And>env fs dir y. f env fs dir = Some y
                \<Longrightarrow> \<forall>e \<in> set (snd y). \<exists>p. e = ExistsSync p"
    and body: "(if fs (pathJoin env dir ''.git'') \<noteq> None then
                  Some (Some dir, [ExistsSync (pathJoin env dir ''.git'')])
                else if pathDirname env dir = dir then
                  Some (None, [ExistsSync (pathJoin env dir ''.git'')])
                else
                  Option.bind (f env fs (pathDirname env dir))
                    (\<lambda>r. Some (fst r, ExistsSync (pathJoin env dir ''.git'') # snd r))) = Some y"
  show "\<forall>e \<in> set (snd y). \<exists>p. e = ExistsSync p"
  proof (cases "fs (pathJoin env dir ''.git'') \<noteq> None \<or> pathDirname env dir = dir")
    case True
    with body show ?thesis by (auto split: if_splits)
  next
    case False
    with body obtain z where z: "f env fs (pathDirname env dir) = Some z"
      and y: "y = (fst z, ExistsSync (pathJoin env dir ''.git'') # snd z)"
      by (auto simp: Option.bind_eq_Some_conv)
    from ih [OF z] y show ?thesis by simp
  qed
qed

lemma cliEventsIn_findGitRoot:
  assumes "\<And>p. A (ExistsSync p)"
  shows "cliEventsIn A (cliFindGitRoot env dir)"
  unfolding cliEventsIn_def
proof (intro allI impI)
  fix fs r fs' es
  assume "cliFindGitRoot env dir fs = Some (r, fs', es)"
  then obtain y where "findGitRoot env fs dir = Some y" and "es = snd y"
    by (cases "findGitRoot env fs dir") (auto simp: cliFindGitRoot_def)
  with findGitRoot_events [of env fs dir y] assms show "\<forall>e \<in> set es. A e"
    by auto
qed

lemma cliEventsIn_getCommitSha:
  assumes "\<And>p. A (ExistsSync p)" and "\<And>gitDir. A (Git gitDir Log)"
  shows "cliEventsIn A (getCommitSha env dir options)"
  unfolding getCommitSha_def
  by (auto intro!: cliEventsIn_bind cliEventsIn_silent cliEventsIn_findGitRoot
        cliEventsIn_gitCall assms split: option.split)

lemma cliEventsIn_getBranch:
  assumes "\<And>p. A (ExistsSync p)" and "\<And>gitDir. A (Git gitDir Status)"
  shows "cliEventsIn A (getBranch env dir options)"
  unfolding getBranch_def
  by (auto intro!: cliEventsIn_bind cliEventsIn_silent cliEventsIn_findGitRoot
        cliEventsIn_gitCall assms split: option.split)

lemma cliEventsIn_reportUploadError:
  assumes "\<And>line. A (ConsoleError line)"
  shows "cliEventsIn A (reportUploadError env err)"
  by (simp add: reportUploadError_def cliEventsIn_fatal assms)

lemma submitEvent_uploadEvent: "submitEvent opts t e \<Longrightarrow> uploadEvent opts e"
  by (auto simp: submitEvent_def)

lemma package_events: "\<forall>e \<in> set (snd (snd (uploadPackageAndSubmit env opts fs))). uploadEvent opts e"
proof -
  obtain t where t: "t = pathJoin env (osTmpdir env) (randHexString env 8 @ ''.tar.gz'')"
    by simp
  show ?thesis
  proof (cases "tarResult env (storybookDir opts) t")
    case (Inl e)
    show ?thesis unfolding package_fail [OF t Inl] by simp
  next
    case (Inr bytes)
    from package_run [OF t Inr, where fs = fs]
    obtain r1 es1 where ev: "\<forall>e \<in> set es1. submitEvent opts t e"
      and shape: "uploadPackageAndSubmit env opts fs =
               (case fsFault env (Unlink t) of
                  Some e \<Rightarrow>
                    (Inl e, fs(t \<mapsto> File bytes),
                     [Tar (storybookDir opts) t, Info (''Created storybook tarball: '' @ t)]
                       @ es1 @ [Fs (Unlink t)])
                | None \<Rightarrow>
                    (r1, fs(t := None),
                     [Tar (storybookDir opts) t, Info (''Created storybook tarball: '' @ t)]
                       @ es1 @ [Fs (Unlink t), Info (''Deleted storybook tarball: '' @ t)]))"
      by blast
    have "\<forall>e \<in> set es1. uploadEvent opts e"
      using ev submitEvent_uploadEvent by blast
    then show ?thesis
      unfolding shape by (auto split: option.splits)
  qed
qed

lemma upload_events:
  assumes run: "uploadStorybook env opts fs = (r, fs', es)"
  shows "\<forall>e \<in> set es. uploadEvent opts e"
proof (cases "isValidGitCommitHash (commitSha opts) \<and> branch opts \<noteq> []
              \<and> length (branch opts) \<le> 255")
  case False
  then have "snd (uploadStorybook env opts fs) = (fs, [])"
    by (rule uploadStorybook_invalid_input_events)
  with run show ?thesis by simp
next
  case True
  then have v: "isValidGitCommitHash (commitSha opts)" "branch opts \<noteq> []"
    "length (branch opts) \<le> 255" by simp_all
  note u = uploadStorybook_unfold [OF v refl refl, where fs = fs]
  note pk = package_events [of env opts fs]
  show ?thesis
    using run pk unfolding u
    by (auto split: sum.splits if_splits prod.splits)
qed

lemma cliEventsIn_upload:
  assumes "\<And>e. uploadEvent opts e \<Longrightarrow> A e"
  shows "cliEventsIn A (cliLift (uploadStorybook env opts))"
  unfolding cliEventsIn_def
proof (intro allI impI)
  fix fs r fs' es
  assume "cliLift (uploadStorybook env opts) fs = Some (r, fs', es)"
  then obtain r0 where "uploadStorybook env opts fs = (r0, fs', es)"
    by (cases "uploadStorybook env opts fs") (auto simp: cliLift_def split: sum.splits)
  from upload_events [OF this] assms show "\<forall>e \<in> set es. A e"
    by blast
qed

lemma cliBind_cliReturn: "cliBind (cliReturn x) f = f x"
  by (rule ext) (simp add: cliBind_def cliReturn_def split: option.split)

text \<open>
  C9. When both \<open>--base-commit\<close> and \<open>--base-branch\<close> are supplied (present and not empty),
  the expression of lines 54-57 yields the supplied pair without any event and without
  calling getBaseCommitShaAndBranch; a run of \<open>vizdiff\<close> then issues none of the git
  queries of base resolution (\<open>getRemotes\<close>, \<open>revparse\<close>, \<open>raw\<close>), and every request it
  submits carries the supplied pair in the two base headers.
\<close>

theorem explicit_base_pair_skips_resolution:
  assumes "optBaseCommit options = Some bc" and "bc \<noteq> []"
    and "optBaseBranch options = Some bb" and "bb \<noteq> []"
  shows "resolveBase env dir options commit currentBranch fs = Some (Inr (Some bc, Some bb), fs, [])
       \<and> (vizdiff env dir options fs = Some (r, fs', es) \<longrightarrow>
            (\<forall>e \<in> set es. \<not> baseResolutionQuery e)
            \<and> (\<forall>req. Fetch req \<in> set es \<longrightarrow>
                  map_of (requestHeaders req) ''X-Vizdiff-Base-Commit-Sha'' = Some bc
                  \<and> map_of (requestHeaders req) ''X-Vizdiff-Base-Branch'' = Some bb))"
proof (intro conjI impI)
  have rb: "\<And>c b. resolveBase env dir options c b = cliReturn (Some bc, Some bb)"
    using assms by (simp add: resolveBase_def truthyString_def)
  show "resolveBase env dir options commit currentBranch fs = Some (Inr (Some bc, Some bb), fs, [])"
    by (simp add: rb cliReturn_def)
  have up: "\<And>e token c b. uploadEvent
              \<lparr>storybookDir = dir, commitSha = c, branch = b, projectToken = token,
               baseCommitSha = Some bc, baseBranch = Some bb,
               prNumber = getPrNumber env options\<rparr> e \<Longrightarrow> explicitBaseEvent bc bb e"
  proof -
    fix e token c b
    assume "uploadEvent
              \<lparr>storybookDir = dir, commitSha = c, branch = b, projectToken = token,
               baseCommitSha = Some bc, baseBranch = Some bb,
               prNumber = getPrNumber env options\<rparr> e"
    then show "explicitBaseEvent bc bb e"
      using assms(2,4) by (cases e) (simp_all add: map_of_uploadHeaders truthyString_def)
  qed
  have "cliEventsIn (explicitBaseEvent bc bb) (vizdiff env dir options)"
    unfolding vizdiff_def rb cliBind_cliReturn
    by (intro cliEventsIn_bind cliEventsIn_getToken cliEventsIn_getCommitSha
          cliEventsIn_getBranch)
       (simp_all add: Let_def cliEventsIn_tryCatch cliEventsIn_upload up
          cliEventsIn_reportUploadError)
  moreover assume "vizdiff env dir options fs = Some (r, fs', es)"
  ultimately have all: "\<forall>e \<in> set es. explicitBaseEvent bc bb e"
    unfolding cliEventsIn_def by blast
  show "\<forall>e \<in> set es. \<not> baseResolutionQuery e"
  proof
    fix e assume "e \<in> set es"
    with all have "explicitBaseEvent bc bb e" by blast
    then show "\<not> baseResolutionQuery e" by (cases e) simp_all
  qed
  show "\<forall>req. Fetch req \<in> set es \<longrightarrow>
                  map_of (requestHeaders req) ''X-Vizdiff-Base-Commit-Sha'' = Some bc
                  \<and> map_of (requestHeaders req) ''X-Vizdiff-Base-Branch'' = Some bb"
    using all by fastforce
qed

theorem explicit_base_pair_witness:
  "optBaseCommit explicitBaseArgs = Some exampleBaseSha \<and> exampleBaseSha \<noteq> []
   \<and> optBaseBranch explicitBaseArgs = Some ''develop''
   \<and> resolveBase exampleEnv exampleDir explicitBaseArgs exampleSha ''main'' exampleFs
        = Some (Inr (Some exampleBaseSha, Some ''develop''), exampleFs, [])
   \<and> (case vizdiff exampleEnv exampleDir explicitBaseArgs exampleFs of
         None \<Rightarrow> False
       | Some (r, fs', es) \<Rightarrow>
           r = Inr ()
           \<and> (\<forall>e \<in> set es. \<not> baseResolutionQuery e)
           \<and> (\<forall>req. Fetch req \<in> set es \<longrightarrow>
                 map_of (requestHeaders req) ''X-Vizdiff-Base-Commit-Sha'' = Some exampleBaseSha
                 \<and> map_of (requestHeaders req) ''X-Vizdiff-Base-Branch'' = Some ''develop''))"
proof -
  have h1: "optBaseCommit explicitBaseArgs = Some exampleBaseSha" by code_simp
  have h2: "exampleBaseSha \<noteq> []" by code_simp
  have h3: "optBaseBranch explicitBaseArgs = Some ''develop''" by code_simp
  have h4: "''develop'' \<noteq> []" by simp
  have ran: "case vizdiff exampleEnv exampleDir explicitBaseArgs exampleFs of
               None \<Rightarrow> False | Some (r, fs', es) \<Rightarrow> r = Inr ()"
    by code_simp
  then obtain fs' es where run:
    "vizdiff exampleEnv exampleDir explicitBaseArgs exampleFs = Some (Inr (), fs', es)"
    by (auto split: option.splits)
  note w = explicit_base_pair_skips_resolution
             [OF h1 h2 h3 h4, where env = exampleEnv and dir = exampleDir and fs = exampleFs
                and commit = exampleSha and currentBranch = "''main''"
                and r = "Inr ()" and fs' = fs' and es = es]
  show ?thesis
    using w h1 h2 h3 run by simp
qed

text \<open>
  An option given as the empty string does not count as supplied: base resolution runs
  whenever one of the two options is absent or empty.
\<close>

lemma resolution_runs_without_both_options:
  assumes "\<not> (truthyString (optBaseCommit options) \<and> truthyString (optBaseBranch options))"
  shows "resolveBase env dir options commit currentBranch =
           getBaseCommitShaAndBranch env dir commit currentBranch (optBaseBranch options)"
  using assms by (auto simp add: resolveBase_def)

section \<open>Base resolution\<close>

text \<open>
  C5. When base resolution runs as far as the base branch (a git root is found, the log
  has a latest commit, the remote \<open>origin\<close> exists and its \<open>HEAD\<close> resolves) and the
  current branch equals the base branch that is used, the base commit is the answer of
  \<open>git rev-parse <commit>~1\<close>, the first parent of the current commit (or the error of that
  query is thrown), and the queries issued are \<open>log\<close>, \<open>getRemotes\<close> and the two
  \<open>revparse\<close>: no \<open>merge-base\<close> is computed.
\<close>

theorem base_commit_is_parent_on_base_branch:
  assumes "findGitRoot env fs dir = Some (Some gitDir, probes)"
    and "gitDir \<noteq> []"
    and "gitLogLatest env gitDir = Inr (Some latest)"
    and "gitRemotes env gitDir = Inr remotes"
    and "''origin'' \<in> set remotes"
    and "gitRevparse env gitDir [''--abbrev-ref'', ''origin/HEAD''] = Inr defaultBranch"
    and "currentBranch = actualBaseBranchOf baseBranchArg defaultBranch"
  shows "getBaseCommitShaAndBranch env dir commit currentBranch baseBranchArg fs =
           Some ((case gitRevparse env gitDir [commit @ ''~1''] of
                    Inl e \<Rightarrow> Inl (Thrown e)
                  | Inr parent \<Rightarrow> Inr (Some parent, Some currentBranch)),
                 fs,
                 probes @ [Git gitDir Log, Git gitDir GetRemotes,
                           Git gitDir (Revparse [''--abbrev-ref'', ''origin/HEAD'']),
                           Git gitDir (Revparse [commit @ ''~1''])])"
  using assms
  by (simp add: getBaseCommitShaAndBranch_def cli_defs truthyString_def find_origin
           split: sum.split)

theorem base_commit_is_parent_witness:
  "findGitRoot exampleEnv exampleFs exampleDir
     = Some (Some ''/repo'', [ExistsSync ''/repo/storybook-static/.git'', ExistsSync ''/repo/.git''])
   \<and> gitRevparse exampleEnv ''/repo'' [''--abbrev-ref'', ''origin/HEAD''] = Inr ''origin/main''
   \<and> ''main'' = actualBaseBranchOf None ''origin/main''
   \<and> gitRevparse exampleEnv ''/repo'' [exampleSha @ ''~1''] = Inr exampleBaseSha
   \<and> getBaseCommitShaAndBranch exampleEnv exampleDir exampleSha ''main'' None exampleFs =
       Some (Inr (Some exampleBaseSha, Some ''main''), exampleFs,
             [ExistsSync ''/repo/storybook-static/.git'', ExistsSync ''/repo/.git'',
              Git ''/repo'' Log, Git ''/repo'' GetRemotes,
              Git ''/repo'' (Revparse [''--abbrev-ref'', ''origin/HEAD'']),
              Git ''/repo'' (Revparse [exampleSha @ ''~1''])])"
proof -
  have h1: "findGitRoot exampleEnv exampleFs exampleDir
     = Some (Some ''/repo'', [ExistsSync ''/repo/storybook-static/.git'', ExistsSync ''/repo/.git''])"
    by code_simp
  have h2: "''/repo'' \<noteq> []" by simp
  have h3: "gitLogLatest exampleEnv ''/repo'' = Inr (Some exampleSha)" by code_simp
  have h4: "gitRemotes exampleEnv ''/repo'' = Inr [''upstream'', ''origin'']" by code_simp
  have h5: "''origin'' \<in> set [''upstream'', ''origin'']" by simp
  have h6: "gitRevparse exampleEnv ''/repo'' [''--abbrev-ref'', ''origin/HEAD''] = Inr ''origin/main''"
    by code_simp
  have h7: "''main'' = actualBaseBranchOf None ''origin/main''" by code_simp
  have h8: "gitRevparse exampleEnv ''/repo'' [exampleSha @ ''~1''] = Inr exampleBaseSha"
    by code_simp
  note w = base_commit_is_parent_on_base_branch
             [OF h1 h2 h3 h4 h5 h6 h7, where commit = exampleSha]
  show ?thesis
    using w h1 h6 h7 h8 by simp
qed

text \<open>
  What the resolution does with the answer of \<open>git merge-base <current> <base>\<close> when
  the current branch differs from the base branch: a rejected query is thrown again as
  \<open>Failed to find merge base between "<current>" and "<base>": <error>\<close>, and a resolved
  one gives its trimmed output as the base commit, whatever that output is.
\<close>

lemma merge_base_answer_decides:
  assumes "findGitRoot env fs dir = Some (Some gitDir, probes)"
    and "gitDir \<noteq> []"
    and "gitLogLatest env gitDir = Inr (Some latest)"
    and "gitRemotes env gitDir = Inr remotes"
    and "''origin'' \<in> set remotes"
    and "gitRevparse env gitDir [''--abbrev-ref'', ''origin/HEAD''] = Inr defaultBranch"
    and "base = actualBaseBranchOf baseBranchArg defaultBranch"
    and "currentBranch \<noteq> base"
  shows \<open>getBaseCommitShaAndBranch env dir commit currentBranch baseBranchArg fs =
           Some ((case gitRaw env gitDir [''merge-base'', currentBranch, base] of
                    Inl err \<Rightarrow>
                      Inl (Thrown (JsError ''Error''
                        (''Failed to find merge base between "'' @ currentBranch @ ''" and "''
                           @ base @ ''": '' @ errorToString err) None))
                  | Inr mergeBase \<Rightarrow> Inr (Some (trim mergeBase), Some base)),
                 fs,
                 probes @ [Git gitDir Log, Git gitDir GetRemotes,
                           Git gitDir (Revparse [''--abbrev-ref'', ''origin/HEAD'']),
                           Git gitDir (Raw [''merge-base'', currentBranch, base])])\<close>
  using assms
  by (simp add: getBaseCommitShaAndBranch_def cli_defs truthyString_def find_origin
           newError_def dq_def Let_def split: sum.split)

text \<open>
  C6. The resolution is to fail, with an error that names both branches, when no common
  ancestor of the current branch and the base branch can be computed. It does not when
  the two branches have no common ancestor: \<open>git merge-base orphan main\<close> writes nothing,
  \<open>raw\<close> resolves with the empty string, and getBaseCommitShaAndBranch returns the empty
  string as the base commit, with the base branch \<open>main\<close>, instead of throwing (or of
  returning the pair of \<open>undefined\<close> that its comment promises when no base commit is
  found). \<open>vizdiff\<close> then uploads the build, with \<open>X-Vizdiff-Base-Branch\<close> and without a
  base commit.
\<close>

theorem no_common_ancestor_is_not_reported:
  "gitRaw exampleEnv ''/repo'' [''merge-base'', ''orphan'', ''main''] = Inr []
   \<and> getBaseCommitShaAndBranch exampleEnv exampleDir exampleSha ''orphan'' None exampleFs =
       Some (Inr (Some [], Some ''main''), exampleFs,
             [ExistsSync ''/repo/storybook-static/.git'', ExistsSync ''/repo/.git'',
              Git ''/repo'' Log, Git ''/repo'' GetRemotes,
              Git ''/repo'' (Revparse [''--abbrev-ref'', ''origin/HEAD'']),
              Git ''/repo'' (Raw [''merge-base'', ''orphan'', ''main''])])
   \<and> (case vizdiff exampleEnv exampleDir orphanArgs exampleFs of
         None \<Rightarrow> False
       | Some (r, fs', es) \<Rightarrow> r = Inr () \<and> Fetch orphanRequest \<in> set es)"
proof -
  have h1: "findGitRoot exampleEnv exampleFs exampleDir
     = Some (Some ''/repo'', [ExistsSync ''/repo/storybook-static/.git'', ExistsSync ''/repo/.git''])"
    by code_simp
  have h2: "''/repo'' \<noteq> []" by simp
  have h3: "gitLogLatest exampleEnv ''/repo'' = Inr (Some exampleSha)" by code_simp
  have h4: "gitRemotes exampleEnv ''/repo'' = Inr [''upstream'', ''origin'']" by code_simp
  have h5: "''origin'' \<in> set [''upstream'', ''origin'']" by simp
  have h6: "gitRevparse exampleEnv ''/repo'' [''--abbrev-ref'', ''origin/HEAD''] = Inr ''origin/main''"
    by code_simp
  have h7: "''main'' = actualBaseBranchOf None ''origin/main''" by code_simp
  have n: "''orphan'' \<noteq> ''main''" by simp
  have g: "gitRaw exampleEnv ''/repo'' [''merge-base'', ''orphan'', ''main''] = Inr []"
    by code_simp
  have e: "trim [] = []" by code_simp
  note w = merge_base_answer_decides [OF h1 h2 h3 h4 h5 h6 h7 n, where commit = exampleSha]
  have r: "getBaseCommitShaAndBranch exampleEnv exampleDir exampleSha ''orphan'' None exampleFs =
       Some (Inr (Some [], Some ''main''), exampleFs,
             [ExistsSync ''/repo/storybook-static/.git'', ExistsSync ''/repo/.git'',
              Git ''/repo'' Log, Git ''/repo'' GetRemotes,
              Git ''/repo'' (Revparse [''--abbrev-ref'', ''origin/HEAD'']),
              Git ''/repo'' (Raw [''merge-base'', ''orphan'', ''main''])])"
    using w g by (simp add: e)
  have v: "case vizdiff exampleEnv exampleDir orphanArgs exampleFs of
         None \<Rightarrow> False
       | Some (r, fs', es) \<Rightarrow> r = Inr () \<and> Fetch orphanRequest \<in> set es"
    by code_simp
  show ?thesis
    using g r v by blast
qed

section \<open>Validation of the commit SHA and of the token\<close>

lemma matchClassRep_iff:
  "matchClassRep cls lo hi s \<longleftrightarrow> lo \<le> length s \<and> length s \<le> hi \<and> list_all cls s"
  by (induction s arbitrary: lo hi) auto

lemma isValidGitCommitHash_iff:
  "isValidGitCommitHash h \<longleftrightarrow>
     length h = 40 \<and> (\<forall>c \<in> set h. c \<in> set ''0123456789abcdefABCDEF'')"
proof -
  have "(40 \<le> length h \<and> length h \<le> 40) = (length h = 40)"
    by arith
  then show ?thesis
    unfolding isValidGitCommitHash_def matchClassRep_iff list_all_iff hexIgnoreCase_def
    by blast
qed

lemma checkToken_iff:
  "checkToken t \<longleftrightarrow>
     12 \<le> length t \<and> length t \<le> 24 \<and> (\<forall>c \<in> set t. c \<in> set ''0123456789abcdef'')"
  unfolding checkToken_def matchClassRep_iff list_all_iff lowerHex_def
  by blast

text \<open>
  C4. For every commit SHA that is not 40 hexadecimal digits of either case,
  uploadStorybook rejects with the message \<open>Invalid commit SHA: "<sha>"\<close>, which holds the
  value as given, without any event (no call to the file system, no other call) and
  with the file system unchanged.
\<close>

theorem invalid_commit_sha_fails_before_any_access:
  assumes "\<not> (length (commitSha opts) = 40
              \<and> (\<forall>c \<in> set (commitSha opts). c \<in> set ''0123456789abcdefABCDEF''))"
  shows \<open>uploadStorybook env opts fs =
           (Inl (JsError ''Error'' (''Invalid commit SHA: "'' @ commitSha opts @ ''"'') None), fs, [])\<close>
proof -
  have "\<not> isValidGitCommitHash (commitSha opts)"
    using assms unfolding isValidGitCommitHash_iff by blast
  then show ?thesis
    by (simp add: uploadStorybook_def ioThrow_def newError_def dq_def)
qed

theorem invalid_commit_sha_witness:
  \<open>\<not> (length ''invalid'' = 40 \<and> (\<forall>c \<in> set ''invalid''. c \<in> set ''0123456789abcdefABCDEF''))
   \<and> uploadStorybook exampleEnv (exampleOpts\<lparr>commitSha := ''invalid''\<rparr>) exampleFs =
           (Inl (JsError ''Error'' ''Invalid commit SHA: "invalid"'' None), exampleFs, [])\<close>
proof -
  have h: "\<not> (length ''invalid'' = 40 \<and> (\<forall>c \<in> set ''invalid''. c \<in> set ''0123456789abcdefABCDEF''))"
    by simp
  have c: "commitSha (exampleOpts\<lparr>commitSha := ''invalid''\<rparr>) = ''invalid''"
    by simp
  show ?thesis
    using h invalid_commit_sha_fails_before_any_access
          [of "exampleOpts\<lparr>commitSha := ''invalid''\<rparr>" exampleEnv exampleFs]
    unfolding c by simp
qed

lemma cliBind_fatal:
  "cliBind (fatal env msg) f fs = Some (Inl (Exited 1), fs, [ConsoleError (errorPrefix env @ msg)])"
  by (simp add: cliBind_def fatal_def)

text \<open>
  C10. \<open>checkToken\<close> accepts exactly the strings of 12 to 24 characters, all of them in
  \<open>0123456789abcdef\<close>, so that an upper-case digit or any other character is rejected. With
  a rejected token, whether from \<open>--token\<close> or from the environment, \<open>vizdiff\<close> ends in
  \<open>fatal\<close> before anything else happens: the only event is the error line, the process
  exits with code 1 and the file system is unchanged. The line is \<open>Invalid project token.
  Please check that the token is correct.\<close> for every token that is not the empty string,
  which the check for a missing token stops first.
\<close>

theorem checkToken_lowercase_hex_else_fatal:
  \<open>(checkToken t \<longleftrightarrow>
      12 \<le> length t \<and> length t \<le> 24 \<and> (\<forall>c \<in> set t. c \<in> set ''0123456789abcdef''))
   \<and> (suppliedToken env options = Some t \<and> \<not> checkToken t \<longrightarrow>
        (\<exists>msg. vizdiff env dir options fs =
                 Some (Inl (Exited 1), fs, [ConsoleError (errorPrefix env @ msg)])
           \<and> (t \<noteq> [] \<longrightarrow>
                msg = ''Invalid project token. Please check that the token is correct.'')))\<close>
proof (intro conjI impI)
  show "checkToken t \<longleftrightarrow>
      12 \<le> length t \<and> length t \<le> 24 \<and> (\<forall>c \<in> set t. c \<in> set ''0123456789abcdef'')"
    by (rule checkToken_iff)
next
  assume a: "suppliedToken env options = Some t \<and> \<not> checkToken t"
  show "\<exists>msg. vizdiff env dir options fs =
                 Some (Inl (Exited 1), fs, [ConsoleError (errorPrefix env @ msg)])
           \<and> (t \<noteq> [] \<longrightarrow>
                msg = ''Invalid project token. Please check that the token is correct.'')"
  proof (cases "t = []")
    case True
    with a have "getToken env options =
        fatal env (''Missing project token. Please set the VIZDIFF_PROJECT_TOKEN ''
          @ ''environment variable or use the --token option.'')"
      by (simp add: getToken_def)
    then show ?thesis using True
      by (simp add: vizdiff_def cliBind_fatal)
  next
    case False
    with a have "getToken env options =
        fatal env ''Invalid project token. Please check that the token is correct.''"
      by (simp add: getToken_def)
    then show ?thesis
      by (simp add: vizdiff_def cliBind_fatal)
  qed
qed

theorem checkToken_witness:
  \<open>suppliedToken exampleEnv badTokenArgs = Some ''0123456789aB''
   \<and> \<not> checkToken ''0123456789aB''
   \<and> vizdiff exampleEnv exampleDir badTokenArgs exampleFs =
       Some (Inl (Exited 1), exampleFs,
             [ConsoleError
                ''[ERROR] Invalid project token. Please check that the token is correct.''])\<close>
proof -
  have s: "suppliedToken exampleEnv badTokenArgs = Some ''0123456789aB''"
    by code_simp
  have c: "\<not> checkToken ''0123456789aB''"
    by code_simp
  have n: "''0123456789aB'' \<noteq> []" by simp
  have p: "errorPrefix exampleEnv = ''[ERROR] ''" by code_simp
  from checkToken_lowercase_hex_else_fatal
         [of "''0123456789aB''" exampleEnv badTokenArgs exampleDir exampleFs]
       s c n
  show ?thesis by (auto simp: p)
qed

text \<open>The empty token is reported as missing, not as invalid.\<close>

lemma empty_token_is_reported_missing:
  assumes "suppliedToken env options = Some []"
  shows "vizdiff env dir options fs =
           Some (Inl (Exited 1), fs,
                 [ConsoleError (errorPrefix env
                    @ ''Missing project token. Please set the VIZDIFF_PROJECT_TOKEN ''
                    @ ''environment variable or use the --token option.'')])"
  using assms by (simp add: vizdiff_def getToken_def cliBind_fatal)

end
